theory Spec2Isabelle
  imports Main
begin

section \<open>Strings and URL construction\<close>

text \<open>
  JavaScript strings are modelled as \<^typ>\<open>string\<close>, one \<^typ>\<open>char\<close> per code unit
  (code units above 255 are outside the model).

  \<^verbatim>\<open>path.startsWith('/')\<close> and \<^verbatim>\<open>baseUrl.replace(/\/$/, '')\<close>: the regular expression
  has no flags, so \<^verbatim>\<open>$\<close> matches at the very end of the input only and at most one
  trailing slash is removed.
\<close>

definition startsWithSlash :: "string \<Rightarrow> bool" where
  "startsWithSlash s = (case s of [] \<Rightarrow> False | c # _ \<Rightarrow> c = CHR ''/'')"

definition endsWithSlash :: "string \<Rightarrow> bool" where
  "endsWithSlash s = (case rev s of [] \<Rightarrow> False | c # _ \<Rightarrow> c = CHR ''/'')"

definition replaceTrailingSlash :: "string \<Rightarrow> string" where
  "replaceTrailingSlash s = (if endsWithSlash s then butlast s else s)"

text \<open>
  \<^verbatim>\<open>
  function buildUrl(baseUrl, path) {
    if (!path.startsWith('/')) {
      return `${baseUrl.replace(/\/$/, '')}/${path}`;
    }
    return `${baseUrl.replace(/\/$/, '')}${path}`;
  }
  \<close>
  The function is the same in both builds of the application.
\<close>

definition buildUrl :: "string \<Rightarrow> string \<Rightarrow> string" where
  "buildUrl baseUrl path =
     (if \<not> startsWithSlash path then replaceTrailingSlash baseUrl @ ''/'' @ path
      else replaceTrailingSlash baseUrl @ path)"

text \<open>A path without its leading slash, if it has one.\<close>

definition withoutLeadingSlash :: "string \<Rightarrow> string" where
  "withoutLeadingSlash s = (if startsWithSlash s then tl s else s)"

section \<open>JSON values\<close>

text \<open>
  The values the application exchanges with the hub: what \<^verbatim>\<open>JSON.parse\<close> returns and
  what \<^verbatim>\<open>JSON.stringify\<close> accepts. An object is the list of its own properties, the first
  binding of a key being its value. Numbers are taken to be integers (fractions and the
  floating-point layout are outside the model). JavaScript's \<^verbatim>\<open>undefined\<close> is \<open>None\<close> of
  the type \<open>json option\<close>.
\<close>

datatype json =
    JNull
  | JBool bool
  | JNum int
  | JStr string
  | JArr "json list"
  | JObj "(string \<times> json) list"

text \<open>Truthiness, as the conditions \<^verbatim>\<open>if (token)\<close>, \<^verbatim>\<open>body && ...\<close> and \<^verbatim>\<open>a || b\<close> test it.\<close>

fun truthy :: "json \<Rightarrow> bool" where
  "truthy JNull = False"
| "truthy (JBool b) = b"
| "truthy (JNum n) = (n \<noteq> 0)"
| "truthy (JStr s) = (s \<noteq> [])"
| "truthy (JArr _) = True"
| "truthy (JObj _) = True"

definition truthyOpt :: "json option \<Rightarrow> bool" where
  "truthyOpt v = (case v of None \<Rightarrow> False | Some j \<Rightarrow> truthy j)"

text \<open>
  String conversion, as a template literal \<^verbatim>\<open>`${v}`\<close> performs it. An integer below
  \<open>2^53\<close> in magnitude is printed with all its decimal digits; from there on JavaScript
  rounds to the shortest digits that read back as the same number and, from \<open>10^21\<close> on,
  switches to exponent notation: that conversion is left to the browser, as the parameter
  \<open>beyond\<close>.
\<close>

definition digitChar :: "nat \<Rightarrow> char" where
  "digitChar d = ''0123456789'' ! d"

function showNat :: "nat \<Rightarrow> string" where
  "showNat n = (if n < 10 then [digitChar n] else showNat (n div 10) @ [digitChar (n mod 10)])"
  by pat_completeness auto
termination
  by (relation "measure id") auto

definition showInt :: "int \<Rightarrow> string" where
  "showInt i = (if i < 0 then ''-'' @ showNat (nat (- i)) else showNat (nat i))"

fun joinWith :: "string \<Rightarrow> string list \<Rightarrow> string" where
  "joinWith sep [] = []"
| "joinWith sep [x] = x"
| "joinWith sep (x # y # ys) = x @ sep @ joinWith sep (y # ys)"

definition numberString :: "(int \<Rightarrow> string) \<Rightarrow> int \<Rightarrow> string" where
  "numberString beyond n = (if \<bar>n\<bar> < 9007199254740992 then showInt n else beyond n)"

fun toString :: "(int \<Rightarrow> string) \<Rightarrow> json \<Rightarrow> string" where
  "toString beyond JNull = ''null''"
| "toString beyond (JBool b) = (if b then ''true'' else ''false'')"
| "toString beyond (JNum n) = numberString beyond n"
| "toString beyond (JStr s) = s"
| "toString beyond (JArr xs) = joinWith '','' (map (\<lambda>x. if x = JNull then [] else toString beyond x) xs)"
| "toString beyond (JObj _) = ''[object Object]''"

definition toStringOpt :: "(int \<Rightarrow> string) \<Rightarrow> json option \<Rightarrow> string" where
  "toStringOpt beyond v = (case v of None \<Rightarrow> ''undefined'' | Some j \<Rightarrow> toString beyond j)"

text \<open>
  Property access \<^verbatim>\<open>v.key\<close> for the two keys the application reads, \<^verbatim>\<open>access_token\<close> and
  \<^verbatim>\<open>username\<close>: only an object can have them. On \<^verbatim>\<open>null\<close> the optional chaining
  \<^verbatim>\<open>data?.access_token\<close> gives \<^verbatim>\<open>undefined\<close>.
\<close>

fun getProp :: "json \<Rightarrow> string \<Rightarrow> json option" where
  "getProp (JObj kvs) k = map_of kvs k"
| "getProp _ k = None"

text \<open>
  \<^verbatim>\<open>String.prototype.trim\<close> strips white space and line terminators from both ends; among
  the 8-bit code units these are tab, line feed, vertical tab, form feed, carriage return,
  space and the no-break space.
\<close>

definition isWhitespace :: "char \<Rightarrow> bool" where
  "isWhitespace c = (c \<in> set [CHR 0x09, CHR 0x0A, CHR 0x0B, CHR 0x0C, CHR 0x0D, CHR 0x20, CHR 0xA0])"

definition trim :: "string \<Rightarrow> string" where
  "trim s = rev (dropWhile isWhitespace (rev (dropWhile isWhitespace s)))"

section \<open>The application: state, environment and request dispatch\<close>

text \<open>
  The application exists in two builds with the same state and handlers: the standalone page
  that runs on the runtime of this repository (\<^verbatim>\<open>src/unnamed/part_000\<close>) and the bundled one
  that runs on the UI framework (\<^verbatim>\<open>src/hub-ui/src/App.jsx\<close>). In the handlers they
  differ in two toast messages, which the definitions below select by the build; and only the
  standalone page re-renders inside its setters.
\<close>

datatype build = Standalone | Bundled

datatype tone = Success | Error

record toast_rec =
  tone :: tone
  message :: string

text \<open>The status of a response record: the numeric HTTP status or the sentinel \<^verbatim>\<open>'error'\<close>.\<close>

datatype status = Code nat | ErrorSentinel

record response_rec =
  r_method :: string
  r_path :: string
  r_status :: status
  r_data :: json

text \<open>
  The ten state variables of \<^verbatim>\<open>App\<close>. Every setter overwrites its variable. The base URL
  and the token are kept in the local storage by \<^verbatim>\<open>useLocalStorage\<close>; the other eight are
  plain state. The base URL is taken to be a string, as the page itself writes it (from the
  text input and from \<^verbatim>\<open>window.location.origin\<close>); a storage edited from outside the page
  so that the key \<^verbatim>\<open>hub.baseUrl\<close> holds another JSON value is not modelled (with such a
  value \<^verbatim>\<open>base.replace\<close> throws inside the \<^verbatim>\<open>try\<close> of \<^verbatim>\<open>sendRequest\<close> and nothing is
  fetched). The token is whatever truthy value the hub returned as \<^verbatim>\<open>access_token\<close>.
  \<open>response = None\<close> is \<^verbatim>\<open>null\<close>.
\<close>

record app =
  baseUrl :: string
  token :: json
  username :: string
  password :: string
  isLoading :: bool
  response :: "response_rec option"
  toast :: toast_rec
  customPath :: string
  customMethod :: string
  customBody :: string

text \<open>
  A promise that is awaited either throws an exception, of which the handlers read the
  \<^verbatim>\<open>message\<close> only, or returns.
\<close>

datatype 'a completion = Throws string | Returns 'a

record fetch_call =
  f_url :: string
  f_method :: string
  f_headers :: "(string \<times> string) list"
  f_body :: "string option"

record http_res =
  res_status :: nat
  res_text :: "string completion"

text \<open>\<^verbatim>\<open>res.ok\<close> is defined by the Fetch standard: the status is in the range 200 to 299.\<close>

definition res_ok :: "http_res \<Rightarrow> bool" where
  "res_ok res = (200 \<le> res_status res \<and> res_status res \<le> 299)"

text \<open>
  What the browser provides: the page origin, the network, the JSON built-ins
  (\<open>JSON_parse s = None\<close> when \<^verbatim>\<open>JSON.parse\<close> throws a syntax error) and the string
  conversion of large numbers. The last two fields concern the standalone page only and are
  used further below: whether \<^verbatim>\<open>createDom\<close> completes on an object made by the hub that has
  the shape of a virtual node, and the message of the exception that a failing re-render
  throws.
\<close>

record env =
  origin :: string
  fetch :: "fetch_call \<Rightarrow> http_res completion"
  JSON_parse :: "string \<Rightarrow> json option"
  JSON_stringify :: "json \<Rightarrow> string"
  largeNumberString :: "int \<Rightarrow> string"
  nodeRenders :: "json \<Rightarrow> bool"
  renderErrorMessage :: string

text \<open>\<^verbatim>\<open>const resolvedBaseUrl = useMemo(() => baseUrl || origin, [baseUrl, origin]);\<close>\<close>

definition resolvedBaseUrl :: "env \<Rightarrow> app \<Rightarrow> string" where
  "resolvedBaseUrl e st = (if baseUrl st \<noteq> [] then baseUrl st else origin e)"

record send_args =
  arg_path :: string
  arg_method :: "string option"
  arg_body :: "json option"

text \<open>What \<^verbatim>\<open>sendRequest\<close> returns: \<^verbatim>\<open>{ ok, data }\<close>, the data being parsed JSON or the exception.\<close>

datatype result_data = Parsed json | Exception string

record send_result =
  ok :: bool
  data :: result_data

text \<open>
  The toast after a response. Standalone:
  \<^verbatim>\<open>{ tone: res.ok ? 'success' : 'error', message: `${method} ${path} ${res.ok ? 'succeeded' : 'failed'}` }\<close>;
  bundled: \<^verbatim>\<open>`${method} ${path} failed (${res.status})`\<close> on failure and
  \<^verbatim>\<open>`${method} ${path} succeeded`\<close> on success.
\<close>

definition responseToast :: "build \<Rightarrow> string \<Rightarrow> string \<Rightarrow> http_res \<Rightarrow> toast_rec" where
  "responseToast b method path res =
     (case b of
        Standalone \<Rightarrow>
          \<lparr>tone = (if res_ok res then Success else Error),
           message = method @ '' '' @ path @ '' '' @ (if res_ok res then ''succeeded'' else ''failed'')\<rparr>
      | Bundled \<Rightarrow>
          (if \<not> res_ok res
           then \<lparr>tone = Error, message = method @ '' '' @ path @ '' failed ('' @ showNat (res_status res) @ '')''\<rparr>
           else \<lparr>tone = Success, message = method @ '' '' @ path @ '' succeeded''\<rparr>))"

text \<open>
  The call that \<^verbatim>\<open>sendRequest\<close> hands to \<^verbatim>\<open>fetch\<close>:
  \<^verbatim>\<open>
      const headers = { 'Content-Type': 'application/json' };
      if (token) headers.Authorization = `Bearer ${token}`;

      const url = buildUrl(resolvedBaseUrl, path);
      const config = { method, headers };
      if (body && method !== 'GET') {
        config.body = JSON.stringify(body);
      }
  \<close>
  \<^verbatim>\<open>method\<close> defaults to \<^verbatim>\<open>'GET'\<close> when the caller passes none.
\<close>

definition argMethod :: "send_args \<Rightarrow> string" where
  "argMethod args = (case arg_method args of None \<Rightarrow> ''GET'' | Some m \<Rightarrow> m)"

definition requestConfig :: "env \<Rightarrow> send_args \<Rightarrow> app \<Rightarrow> fetch_call" where
  "requestConfig e args st0 =
     (let path = arg_path args;
          method = argMethod args;
          body = arg_body args;
          headers = (''Content-Type'', ''application/json'') #
                    (if truthy (token st0)
                     then [(''Authorization'', ''Bearer '' @ toString (largeNumberString e) (token st0))]
                     else []);
          url = buildUrl (resolvedBaseUrl e st0) path
      in \<lparr>f_url = url, f_method = method, f_headers = headers,
          f_body = (case body of
                      None \<Rightarrow> None
                    | Some j \<Rightarrow> if truthy j \<and> method \<noteq> ''GET'' then Some (JSON_stringify e j) else None)\<rparr>)"

text \<open>
  \<^verbatim>\<open>const res = await fetch(url, config); const text = await res.text();\<close>
  Either of the two may throw.
\<close>

definition awaitResponse :: "env \<Rightarrow> fetch_call \<Rightarrow> (http_res \<times> string) completion" where
  "awaitResponse e call =
     (case fetch e call of
        Throws msg \<Rightarrow> Throws msg
      | Returns res \<Rightarrow> (case res_text res of Throws msg \<Rightarrow> Throws msg | Returns text \<Rightarrow> Returns (res, text)))"

text \<open>
  \<^verbatim>\<open>sendRequest({ path, method = 'GET', body })\<close>. The model runs one dispatch from the
  state \<open>st0\<close> in which the handler was created to the state after its last setter, with
  no other event in between; it returns the result, the new state and the calls made to
  \<^verbatim>\<open>fetch\<close>. The \<^verbatim>\<open>try\<close> block ends at the first exception, the \<^verbatim>\<open>catch\<close> block records
  it, and \<^verbatim>\<open>finally\<close> runs on every path. In \<open>sendRequest\<close> and the four handlers that
  follow, the re-render that a setter of the standalone page starts is taken to complete;
  \<open>sendRequestOnPage\<close> and the handlers named \<open>OnPage\<close> further below are the same code
  with the re-renders that throw.
\<close>

definition sendRequest :: "build \<Rightarrow> env \<Rightarrow> send_args \<Rightarrow> app \<Rightarrow> send_result \<times> app \<times> fetch_call list" where
  "sendRequest b e args st0 =
     (let path = arg_path args;
          method = argMethod args;
          st1 = st0\<lparr>isLoading := True\<rparr>;
          st2 = st1\<lparr>toast := \<lparr>tone = Success, message = []\<rparr>\<rparr>;
          call = requestConfig e args st0;
          (result, st5) =
            (case awaitResponse e call of
               Returns (res, text) \<Rightarrow>
                 (let parsed = (case JSON_parse e text of None \<Rightarrow> JStr text | Some j \<Rightarrow> j);
                      payload = \<lparr>r_method = method, r_path = path, r_status = Code (res_status res), r_data = parsed\<rparr>;
                      st3 = st2\<lparr>response := Some payload\<rparr>;
                      st4 = st3\<lparr>toast := responseToast b method path res\<rparr>
                  in (\<lparr>ok = res_ok res, data = Parsed parsed\<rparr>, st4))
             | Throws msg \<Rightarrow>
                 (let st3 = st2\<lparr>toast := \<lparr>tone = Error, message = msg\<rparr>\<rparr>;
                      st4 = st3\<lparr>response := Some \<lparr>r_method = method, r_path = path, r_status = ErrorSentinel, r_data = JStr msg\<rparr>\<rparr>
                  in (\<lparr>ok = False, data = Exception msg\<rparr>, st4)))
      in (result, st5\<lparr>isLoading := False\<rparr>, [call]))"

text \<open>
  \<^verbatim>\<open>handleLogin\<close>. Standalone: \<^verbatim>\<open>`Signed in as ${result.data.username || username}`\<close>;
  bundled: \<^verbatim>\<open>`Signed in as ${result.data.username}`\<close>.
\<close>

definition signedInAs :: "build \<Rightarrow> env \<Rightarrow> json \<Rightarrow> string \<Rightarrow> string" where
  "signedInAs b e d uname =
     (case b of
        Standalone \<Rightarrow>
          (if truthyOpt (getProp d ''username'')
           then toStringOpt (largeNumberString e) (getProp d ''username'')
           else uname)
      | Bundled \<Rightarrow> toStringOpt (largeNumberString e) (getProp d ''username''))"

text \<open>
  \<^verbatim>\<open>
  const handleLogin = async () => {
    const result = await sendRequest({ path: '/authenticate', method: 'POST', body: { username, password } });
    if (result.ok && result.data?.access_token) {
      setToken(result.data.access_token);
      setToast({ tone: 'success', message: `Signed in as ...` });
    }
  };
  \<close>
  When \<^verbatim>\<open>result.ok\<close> holds the data is the parsed body; an exception comes with \<^verbatim>\<open>ok: false\<close>.
\<close>

definition loginArgs :: "app \<Rightarrow> send_args" where
  "loginArgs st0 =
     \<lparr>arg_path = ''/authenticate'', arg_method = Some ''POST'',
      arg_body = Some (JObj [(''username'', JStr (username st0)), (''password'', JStr (password st0))])\<rparr>"

definition handleLogin :: "build \<Rightarrow> env \<Rightarrow> app \<Rightarrow> app \<times> fetch_call list" where
  "handleLogin b e st0 =
     (let (result, st1, calls) = sendRequest b e (loginArgs st0) st0
      in if ok result
         then (case data result of
                 Parsed d \<Rightarrow>
                   (case getProp d ''access_token'' of
                      Some t \<Rightarrow>
                        if truthy t
                        then (let st2 = st1\<lparr>token := t\<rparr>;
                                  st3 = st2\<lparr>toast := \<lparr>tone = Success,
                                                       message = ''Signed in as '' @ signedInAs b e d (username st0)\<rparr>\<rparr>
                              in (st3, calls))
                        else (st1, calls)
                    | None \<Rightarrow> (st1, calls))
               | Exception msg \<Rightarrow> (st1, calls))
         else (st1, calls))"

text \<open>
  \<^verbatim>\<open>
  const handleLogout = async () => {
    await sendRequest({ path: '/logout', method: 'POST' });
    setToken('');
    setToast({ tone: 'success', message: 'Logged out and token cleared' });
  };
  \<close>
\<close>

definition logoutArgs :: send_args where
  "logoutArgs = \<lparr>arg_path = ''/logout'', arg_method = Some ''POST'', arg_body = None\<rparr>"

definition handleLogout :: "build \<Rightarrow> env \<Rightarrow> app \<Rightarrow> app \<times> fetch_call list" where
  "handleLogout b e st0 =
     (let (result, st1, calls) = sendRequest b e logoutArgs st0;
          st2 = st1\<lparr>token := JStr []\<rparr>;
          st3 = st2\<lparr>toast := \<lparr>tone = Success, message = ''Logged out and token cleared''\<rparr>\<rparr>
      in (st3, calls))"

text \<open>
  \<^verbatim>\<open>
  const handleCustom = async () => {
    let parsedBody;
    if (customBody.trim()) {
      try {
        parsedBody = JSON.parse(customBody);
      } catch (error) {
        setToast({ tone: 'error', message: 'Request body must be valid JSON' });
        return;
      }
    }
    await sendRequest({ path: customPath, method: customMethod, body: parsedBody });
  };
  \<close>
\<close>

definition customArgs :: "app \<Rightarrow> json option \<Rightarrow> send_args" where
  "customArgs st0 parsedBody =
     \<lparr>arg_path = customPath st0, arg_method = Some (customMethod st0), arg_body = parsedBody\<rparr>"

definition handleCustom :: "build \<Rightarrow> env \<Rightarrow> app \<Rightarrow> app \<times> fetch_call list" where
  "handleCustom b e st0 =
     (if trim (customBody st0) \<noteq> []
      then (case JSON_parse e (customBody st0) of
              None \<Rightarrow> (st0\<lparr>toast := \<lparr>tone = Error, message = ''Request body must be valid JSON''\<rparr>\<rparr>, [])
            | Some j \<Rightarrow> snd (sendRequest b e (customArgs st0 (Some j)) st0))
      else snd (sendRequest b e (customArgs st0 None) st0))"

text \<open>
  A quick-action button: \<^verbatim>\<open>onClick: () => sendRequest(action)\<close>, the action carrying a
  path and the method \<^verbatim>\<open>'GET'\<close>.
\<close>

definition quickArgs :: "string \<Rightarrow> send_args" where
  "quickArgs path = \<lparr>arg_path = path, arg_method = Some ''GET'', arg_body = None\<rparr>"

definition quickAction :: "build \<Rightarrow> env \<Rightarrow> string \<Rightarrow> app \<Rightarrow> app \<times> fetch_call list" where
  "quickAction b e path st0 = snd (sendRequest b e (quickArgs path) st0)"


subsection \<open>Sample environment and states\<close>

text \<open>
  The state of a fresh page (the initial values of the ten state variables, the storage being
  empty), a hub that gives one fixed answer, and stand-ins for the JSON built-ins on the few
  texts and values used in the examples below.
\<close>

definition initialApp :: "env \<Rightarrow> app" where
  "initialApp e =
     \<lparr>baseUrl = origin e, token = JStr [], username = [], password = [], isLoading = False,
      response = None, toast = \<lparr>tone = Success, message = []\<rparr>,
      customPath = ''/admin/providers'', customMethod = ''GET'', customBody = []\<rparr>"

definition sampleParse :: "string \<Rightarrow> json option" where
  \<open>sampleParse s =
     (if s = ''{"access_token":"abc","username":"u"}''
      then Some (JObj [(''access_token'', JStr ''abc''), (''username'', JStr ''u'')])
      else if s = ''{"access_token":true}''
      then Some (JObj [(''access_token'', JBool True)])
      else if s = ''0'' then Some (JNum 0)
      else None)\<close>

definition sampleStringify :: "json \<Rightarrow> string" where
  "sampleStringify j = (case j of JNum n \<Rightarrow> showInt n | _ \<Rightarrow> ''{}'')"

definition sampleHub :: "http_res completion \<Rightarrow> env" where
  "sampleHub answer =
     \<lparr>origin = ''http://localhost:10000'', fetch = (\<lambda>call. answer),
      JSON_parse = sampleParse, JSON_stringify = sampleStringify,
      largeNumberString = showInt, nodeRenders = (\<lambda>node. False),
      renderErrorMessage = ''Cannot read properties of undefined''\<rparr>"

definition unauthorized :: "http_res completion" where
  "unauthorized = Returns \<lparr>res_status = 401, res_text = Returns ''Unauthorized''\<rparr>"

definition authenticated :: "http_res completion" where
  \<open>authenticated = Returns \<lparr>res_status = 200, res_text = Returns ''{"access_token":"abc","username":"u"}''\<rparr>\<close>


definition signedIn :: "env \<Rightarrow> app" where
  "signedIn e = (initialApp e)\<lparr>token := JStr ''abc''\<rparr>"

definition typedCredentials :: "env \<Rightarrow> app" where
  "typedCredentials e = (initialApp e)\<lparr>username := ''operator'', password := ''secret''\<rparr>"

definition typedBody :: "env \<Rightarrow> string \<Rightarrow> app" where
  "typedBody e text = (initialApp e)\<lparr>customMethod := ''POST'', customBody := text\<rparr>"

section \<open>The rendering runtime: hook slots\<close>

text \<open>
  The values that components keep in hook slots and pass as dependencies. Equality on
  \<open>jsv\<close> is JavaScript's strict equality \<^verbatim>\<open>===\<close>: primitives are compared by value and
  objects by reference (\<open>VRef\<close> carries the identity of an object, its content is not
  needed here). Numbers are integers; \<^verbatim>\<open>NaN\<close>, the one value that differs from itself, is
  outside the model.
\<close>

datatype jsv =
    VUndefined
  | VNull
  | VBool bool
  | VNum int
  | VStr string
  | VRef nat

text \<open>
  What the runtime can throw: a type error of the language, or the \<^verbatim>\<open>InvalidCharacterError\<close>
  of the DOM for a name it refuses. The other two are not JavaScript exceptions; they mark
  where the model stops instead of following the program further. \<open>HookOrderViolation\<close>
  marks a hook that finds the slot of another kind of hook, which happens only when a render
  does not repeat the hook calls of the previous one, and the invariant of the data model
  excludes that. \<open>OutsideModel\<close> marks a call whose outcome depends on the browser: a name
  that only some browsers accept, or the text of a number of magnitude \<open>2^53\<close> or more.
\<close>

datatype fault = TypeError | InvalidCharacterError | HookOrderViolation | OutsideModel

text \<open>
  \<^verbatim>\<open>let hooks = []; let hookIndex = 0; let pendingEffects = [];\<close>
  A slot holds a plain state value, a memo record \<^verbatim>\<open>{ value, deps }\<close> or an effect record
  \<^verbatim>\<open>{ deps, cleanup }\<close>. Reading the array at an index never written gives \<^verbatim>\<open>undefined\<close>,
  writing beyond its end extends it: the array is a function from indices to slots, and
  \<open>Value VUndefined\<close> is both the unwritten slot and a state set to \<^verbatim>\<open>undefined\<close>. A
  dependency list that was not passed is \<open>None\<close>. Effects and their cleanups act on browser
  state of type \<open>'w\<close> (the local storage, for the effects of this repository); an effect
  returns its cleanup, or nothing.
\<close>

datatype 'w slot =
    Value jsv
  | MemoCell jsv "jsv list option"
  | EffectCell "jsv list option" "('w \<Rightarrow> 'w) option"

record 'w pending =
  p_idx :: nat
  p_previous :: "'w slot"
  p_effect :: "'w \<Rightarrow> ('w \<Rightarrow> 'w) option \<times> 'w"
  p_deps :: "jsv list option"

record 'w rt =
  hooks :: "nat \<Rightarrow> 'w slot"
  hookIndex :: nat
  pendingEffects :: "'w pending list"
  world :: 'w

text \<open>
  \<^verbatim>\<open>
  const useState = (initialValue) => {
    const idx = hookIndex++;
    if (hooks[idx] === undefined) {
      hooks[idx] = typeof initialValue === 'function' ? initialValue() : initialValue;
    }
    const setState = (value) => { ... };
    return [hooks[idx], setState];
  };
  \<close>
  An initial value is a literal or a function, which may read the browser state. The model
  returns the value together with the index \<open>idx\<close> that the setter closes over.
\<close>

datatype 'w initial = Literal jsv | Lazy "'w \<Rightarrow> jsv"

definition useState :: "'w initial \<Rightarrow> 'w rt \<Rightarrow> fault + (jsv \<times> nat \<times> 'w rt)" where
  "useState initialValue st =
     (let idx = hookIndex st;
          st1 = st\<lparr>hookIndex := idx + 1\<rparr>
      in case hooks st1 idx of
           Value VUndefined \<Rightarrow>
             (let v = (case initialValue of Literal v \<Rightarrow> v | Lazy f \<Rightarrow> f (world st1))
              in Inr (v, idx, st1\<lparr>hooks := (hooks st1)(idx := Value v)\<rparr>))
         | Value v \<Rightarrow> Inr (v, idx, st1)
         | _ \<Rightarrow> Inl HookOrderViolation)"

text \<open>
  \<^verbatim>\<open>deps.some((dep, i) => dep !== previous.deps[i])\<close>, for a list \<^verbatim>\<open>previous.deps\<close>;
  reading a list beyond its end gives \<^verbatim>\<open>undefined\<close>.
\<close>

definition nthOrUndefined :: "jsv list \<Rightarrow> nat \<Rightarrow> jsv" where
  "nthOrUndefined xs i = (if i < length xs then xs ! i else VUndefined)"

definition someDiffers :: "jsv list \<Rightarrow> jsv list \<Rightarrow> bool" where
  "someDiffers deps previousDeps = list_ex (\<lambda>(i, dep). dep \<noteq> nthOrUndefined previousDeps i) (enumerate 0 deps)"

text \<open>
  \<^verbatim>\<open>
    const changed =
      !previous ||
      !deps ||
      deps.length === 0 ||
      deps.some((dep, i) => dep !== previous.deps[i]);
  \<close>
  for a record \<^verbatim>\<open>previous\<close> with the dependency list \<open>previousDeps\<close>. When the previous
  render passed no list and this one passes a non-empty one, \<^verbatim>\<open>previous.deps[0]\<close> reads a
  property of \<^verbatim>\<open>undefined\<close>, a type error.
\<close>

definition depsChanged :: "jsv list option \<Rightarrow> jsv list option \<Rightarrow> fault + bool" where
  "depsChanged previousDeps deps =
     (case deps of
        None \<Rightarrow> Inr True
      | Some ds \<Rightarrow>
          if length ds = 0 then Inr True
          else (case previousDeps of
                  None \<Rightarrow> Inl TypeError
                | Some pd \<Rightarrow> Inr (someDiffers ds pd)))"


text \<open>
  \<^verbatim>\<open>
  const useEffect = (effect, deps) => {
    const idx = hookIndex++;
    const previous = hooks[idx];
    const changed = ...;
    if (changed) {
      pendingEffects.push(() => {
        if (previous && typeof previous.cleanup === 'function') {
          previous.cleanup();
        }
        const cleanup = effect();
        hooks[idx] = { deps, cleanup };
      });
    }
  };
  \<close>
  The closure pushed on the list is the record of what it closes over; \<open>runPending\<close> is its
  body.
\<close>

definition useEffect :: "('w \<Rightarrow> ('w \<Rightarrow> 'w) option \<times> 'w) \<Rightarrow> jsv list option \<Rightarrow> 'w rt \<Rightarrow> fault + 'w rt" where
  "useEffect effect deps st =
     (let idx = hookIndex st;
          st1 = st\<lparr>hookIndex := idx + 1\<rparr>;
          previous = hooks st1 idx;
          schedule = Inr (st1\<lparr>pendingEffects := pendingEffects st1 @
                             [\<lparr>p_idx = idx, p_previous = previous, p_effect = effect, p_deps = deps\<rparr>]\<rparr>)
      in case previous of
           Value VUndefined \<Rightarrow> schedule
         | EffectCell previousDeps previousCleanup \<Rightarrow>
             (case depsChanged previousDeps deps of
                Inl e \<Rightarrow> Inl e
              | Inr changed \<Rightarrow> if changed then schedule else Inr st1)
         | _ \<Rightarrow> Inl HookOrderViolation)"

definition runPending :: "'w pending \<Rightarrow> 'w rt \<Rightarrow> 'w rt" where
  "runPending p st =
     (let w1 = (case p_previous p of
                  EffectCell previousDeps (Some cleanup) \<Rightarrow> cleanup (world st)
                | _ \<Rightarrow> world st);
          (cleanup, w2) = p_effect p w1
      in st\<lparr>world := w2, hooks := (hooks st)(p_idx p := EffectCell (p_deps p) cleanup)\<rparr>)"



section \<open>The rendering runtime: virtual nodes and the DOM\<close>

text \<open>
  Property values of an element: primitives, functions (event handlers, of an abstract type
  \<open>'h\<close>) and plain objects (style objects). \<^verbatim>\<open>props\<close> is an object, in the order of its
  entries, or \<^verbatim>\<open>null\<close> (\<open>None\<close>).
\<close>

datatype 'h propval =
    PUndefined
  | PNull
  | PBool bool
  | PNum int
  | PStr string
  | PFun 'h
  | PObj "(string \<times> string) list"

type_synonym 'h props = "(string \<times> 'h propval) list"

text \<open>
  A virtual node \<^verbatim>\<open>{ type, props, children }\<close> is written by the kind of its \<^verbatim>\<open>type\<close>: a tag
  name, the \<^verbatim>\<open>Fragment\<close> symbol, or a component function. The leaves are the primitive
  values that may stand for a child. A component runs its hooks on the runtime state and
  returns a node, or throws; it receives the properties of its node (the \<^verbatim>\<open>children\<close>
  entry added to them is left out: a datatype cannot hold functions of itself, and no
  component of this repository reads it). \<open>LeafObject\<close> is a child that is an object or an
  array but not a virtual node: it has no \<^verbatim>\<open>type\<close>, \<^verbatim>\<open>props\<close> or \<^verbatim>\<open>children\<close>.
\<close>

datatype (dead 'w, dead 'h) vnode =
    LeafNull
  | LeafUndefined
  | LeafBool bool
  | LeafText string
  | LeafNumber int
  | Element string "'h props option" "('w, 'h) vnode list"
  | FragmentElement "'h props option" "('w, 'h) vnode list"
  | ComponentElement "'h props \<Rightarrow> 'w rt \<Rightarrow> ('w, 'h) outcome" "'h props option" "('w, 'h) vnode list"
  | LeafObject
and (dead 'w, dead 'h) outcome =
    Threw fault
  | Rendered "('w, 'h) vnode" "'w rt"

text \<open>
  The DOM that \<^verbatim>\<open>createDom\<close> builds: text nodes, elements and document fragments, each
  with the calls that \<^verbatim>\<open>setProp\<close> made on it and its children, in order. The browser's own
  conversion of attribute values to strings is not modelled.
\<close>

datatype 'h domop =
    SetAttribute string "'h propval"
  | AssignStyle "'h propval"
  | AddEventListener string "'h propval"
  | AssignProperty string "'h propval"

datatype 'h dom =
    TextNode string
  | ElementNode string "'h domop list" "'h dom list"
  | DocumentFragment "'h domop list" "'h dom list"

text \<open>
  \<^verbatim>\<open>document.createElement(name)\<close> and \<^verbatim>\<open>dom.setAttribute(name, value)\<close> throw an
  \<^verbatim>\<open>InvalidCharacterError\<close> for a name the DOM refuses. Which names it refuses has changed
  between versions of the DOM standard. Every version refuses the empty name and a name
  that contains white space, the null character, \<^verbatim>\<open>/\<close> or \<^verbatim>\<open>>\<close> (for attributes also
  \<^verbatim>\<open>=\<close>); every version accepts a name that starts with an ASCII letter and goes on with
  ASCII letters, digits, \<^verbatim>\<open>-\<close>, \<^verbatim>\<open>_\<close> and \<^verbatim>\<open>.\<close>, as all names in this repository do.
\<close>

definition isAsciiLetter :: "char \<Rightarrow> bool" where
  "isAsciiLetter c = (let n = of_char c :: nat in (65 \<le> n \<and> n \<le> 90) \<or> (97 \<le> n \<and> n \<le> 122))"

definition isAsciiDigit :: "char \<Rightarrow> bool" where
  "isAsciiDigit c = (let n = of_char c :: nat in 48 \<le> n \<and> n \<le> 57)"

definition plainName :: "string \<Rightarrow> bool" where
  "plainName name =
     (case name of
        [] \<Rightarrow> False
      | c # cs \<Rightarrow> isAsciiLetter c \<and>
          list_all (\<lambda>d. isAsciiLetter d \<or> isAsciiDigit d \<or> d = CHR ''-'' \<or> d = CHR ''_'' \<or> d = CHR ''.'') cs)"

definition refusedElementName :: "string \<Rightarrow> bool" where
  "refusedElementName name =
     (name = [] \<or>
      list_ex (\<lambda>c. c \<in> set [CHR 0x09, CHR 0x0A, CHR 0x0C, CHR 0x0D, CHR 0x20, CHR 0x00, CHR ''/'', CHR ''>'']) name)"

definition refusedAttributeName :: "string \<Rightarrow> bool" where
  "refusedAttributeName name = (refusedElementName name \<or> list_ex (\<lambda>c. c = CHR ''='') name)"

definition createElement :: "string \<Rightarrow> fault option" where
  "createElement name =
     (if refusedElementName name then Some InvalidCharacterError
      else if plainName name then None
      else Some OutsideModel)"

definition setAttribute :: "bool \<Rightarrow> string \<Rightarrow> 'h propval \<Rightarrow> fault + 'h domop list" where
  "setAttribute onFragment name v =
     (if onFragment then Inl TypeError
      else if refusedAttributeName name then Inl InvalidCharacterError
      else if plainName name then Inr [SetAttribute name v]
      else Inl OutsideModel)"

text \<open>\<^verbatim>\<open>String.prototype.toLowerCase\<close> on 8-bit code units.\<close>

definition toLowerChar :: "char \<Rightarrow> char" where
  "toLowerChar c =
     (let n = of_char c :: nat
      in if (65 \<le> n \<and> n \<le> 90) \<or> (192 \<le> n \<and> n \<le> 222 \<and> n \<noteq> 215) then char_of (n + 32) else c)"

text \<open>
  \<^verbatim>\<open>
  const setProp = (dom, name, value) => {
    if (name === 'key') { return; }
    if (name === 'className') {
      dom.setAttribute('class', value);
    } else if (name === 'style' && value && typeof value === 'object') {
      Object.assign(dom.style, value);
    } else if (name.startsWith('on') && typeof value === 'function') {
      const evt = name.substring(2).toLowerCase();
      dom.addEventListener(evt, value);
    } else if (name === 'value' || name === 'checked') {
      dom[name] = value;
    } else if (name !== 'children' && value !== false && value !== undefined) {
      dom.setAttribute(name, value);
    }
  };
  \<close>
  A document fragment has neither \<^verbatim>\<open>setAttribute\<close> nor \<^verbatim>\<open>style\<close>, so these calls throw a
  type error on it (\<open>setAttribute\<close> above, called with \<open>onFragment\<close>). The result is the
  list of calls made (none or one).
\<close>

definition isFunction :: "'h propval \<Rightarrow> bool" where
  "isFunction v = (case v of PFun h \<Rightarrow> True | _ \<Rightarrow> False)"

definition isObject :: "'h propval \<Rightarrow> bool" where
  "isObject v = (case v of PObj kvs \<Rightarrow> True | _ \<Rightarrow> False)"

definition setProp :: "bool \<Rightarrow> string \<Rightarrow> 'h propval \<Rightarrow> fault + 'h domop list" where
  "setProp onFragment name v =
     (if name = ''key'' then Inr []
      else if name = ''className''
        then setAttribute onFragment ''class'' v
      else if name = ''style'' \<and> isObject v
        then (if onFragment then Inl TypeError else Inr [AssignStyle v])
      else if take 2 name = ''on'' \<and> isFunction v
        then Inr [AddEventListener (map toLowerChar (drop 2 name)) v]
      else if name = ''value'' \<or> name = ''checked''
        then Inr [AssignProperty name v]
      else if name \<noteq> ''children'' \<and> v \<noteq> PBool False \<and> v \<noteq> PUndefined
        then setAttribute onFragment name v
      else Inr [])"

text \<open>
  \<^verbatim>\<open>Object.entries(vnode.props || {}).forEach(([name, value]) => setProp(dom, name, value));\<close>
\<close>

fun setProps :: "bool \<Rightarrow> 'h props \<Rightarrow> fault + 'h domop list" where
  "setProps onFragment [] = Inr []"
| "setProps onFragment ((name, v) # rest) =
     (case setProp onFragment name v of
        Inl e \<Rightarrow> Inl e
      | Inr ops \<Rightarrow> (case setProps onFragment rest of Inl e \<Rightarrow> Inl e | Inr ops' \<Rightarrow> Inr (ops @ ops')))"

definition propsOrEmpty :: "'h props option \<Rightarrow> 'h props" where
  "propsOrEmpty props = (case props of None \<Rightarrow> [] | Some ps \<Rightarrow> ps)"

text \<open>\<^verbatim>\<open>dom.appendChild(child)\<close>: appending a document fragment moves its children in.\<close>

definition appendChild :: "'h dom list \<Rightarrow> 'h dom \<Rightarrow> 'h dom list" where
  "appendChild children child =
     (case child of DocumentFragment ops cs \<Rightarrow> children @ cs | _ \<Rightarrow> children @ [child])"

text \<open>
  \<^verbatim>\<open>
  const createDom = (vnode) => {
    if (vnode === null || vnode === undefined || vnode === false) {
      return document.createTextNode('');
    }
    if (typeof vnode === 'string' || typeof vnode === 'number') {
      return document.createTextNode(vnode);
    }
    if (typeof vnode.type === 'function') {
      const component = vnode.type({ ...vnode.props, children: vnode.children });
      return createDom(component);
    }
    const dom = vnode.type === Fragment ? document.createDocumentFragment() : document.createElement(vnode.type);
    Object.entries(vnode.props || {}).forEach(([name, value]) => setProp(dom, name, value));
    vnode.children.forEach((child) => dom.appendChild(createDom(child)));
    return dom;
  };
  \<close>
  The leaf \<^verbatim>\<open>true\<close> passes the first two tests; \<^verbatim>\<open>true.type\<close> is \<^verbatim>\<open>undefined\<close>, neither a
  function nor \<^verbatim>\<open>Fragment\<close>, so an element is created for it, \<^verbatim>\<open>true.props\<close> gives no
  entries, and \<^verbatim>\<open>true.children.forEach\<close> reads a property of \<^verbatim>\<open>undefined\<close>: a type error.
  An object that is not a virtual node goes the same way.
\<close>

primrec createDom :: "('w, 'h) vnode \<Rightarrow> 'w rt \<Rightarrow> fault + ('h dom \<times> 'w rt)"
  and createDomOutcome :: "('w, 'h) outcome \<Rightarrow> fault + ('h dom \<times> 'w rt)"
  and appendChildren :: "('w, 'h) vnode list \<Rightarrow> 'h dom list \<Rightarrow> 'w rt \<Rightarrow> fault + ('h dom list \<times> 'w rt)"
where
  "createDom LeafNull = (\<lambda>st. Inr (TextNode [], st))"
| "createDom LeafUndefined = (\<lambda>st. Inr (TextNode [], st))"
| "createDom (LeafBool b) = (\<lambda>st. if b = False then Inr (TextNode [], st) else Inl TypeError)"
| "createDom (LeafText s) = (\<lambda>st. Inr (TextNode s, st))"
| "createDom (LeafNumber n) =
     (\<lambda>st. if \<bar>n\<bar> < 9007199254740992 then Inr (TextNode (showInt n), st) else Inl OutsideModel)"
| "createDom LeafObject = (\<lambda>st. Inl TypeError)"
| "createDom (ComponentElement f props children) = (\<lambda>st. createDomOutcome (f (propsOrEmpty props) st))"
| "createDom (FragmentElement props children) =
     (\<lambda>st. case setProps True (propsOrEmpty props) of
              Inl e \<Rightarrow> Inl e
            | Inr ops \<Rightarrow>
                (case appendChildren children [] st of
                   Inl e \<Rightarrow> Inl e
                 | Inr (cs, st') \<Rightarrow> Inr (DocumentFragment ops cs, st')))"
| "createDom (Element tag props children) =
     (\<lambda>st. case createElement tag of
              Some e \<Rightarrow> Inl e
            | None \<Rightarrow>
                (case setProps False (propsOrEmpty props) of
                   Inl e \<Rightarrow> Inl e
                 | Inr ops \<Rightarrow>
                     (case appendChildren children [] st of
                        Inl e \<Rightarrow> Inl e
                      | Inr (cs, st') \<Rightarrow> Inr (ElementNode tag ops cs, st'))))"
| "createDomOutcome (Threw e) = Inl e"
| "createDomOutcome (Rendered vnode st) = createDom vnode st"
| "appendChildren [] = (\<lambda>acc st. Inr (acc, st))"
| "appendChildren (child # rest) =
     (\<lambda>acc st. case createDom child st of
                  Inl e \<Rightarrow> Inl e
                | Inr (d, st') \<Rightarrow> appendChildren rest (appendChild acc d) st')"

text \<open>
  \<^verbatim>\<open>
  const render = (vnode, container) => {
    currentRoot = container;
    currentVNode = vnode;
    hookIndex = 0;
    pendingEffects = [];
    const dom = createDom(vnode);
    container.replaceChildren(dom);
    pendingEffects.forEach((fn) => fn());
  };
  \<close>
  The result is the new content of the container and the runtime state. The two module
  variables \<^verbatim>\<open>currentRoot\<close> and \<^verbatim>\<open>currentVNode\<close> are the argument \<open>current\<close> of \<open>rerender\<close>,
  \<open>None\<close> before the first render.
\<close>

definition render :: "('w, 'h) vnode \<Rightarrow> 'w rt \<Rightarrow> fault + ('h dom list \<times> 'w rt)" where
  "render vnode st =
     (let st1 = st\<lparr>hookIndex := 0\<rparr>;
          st2 = st1\<lparr>pendingEffects := []\<rparr>
      in case createDom vnode st2 of
           Inl e \<Rightarrow> Inl e
         | Inr (d, st3) \<Rightarrow> Inr (appendChild [] d, fold runPending (pendingEffects st3) st3))"

definition rerender :: "('w, 'h) vnode option \<Rightarrow> 'w rt \<Rightarrow> fault + ('h dom list option \<times> 'w rt)" where
  "rerender current st =
     (case current of
        None \<Rightarrow> Inr (None, st)
      | Some vnode \<Rightarrow> (case render vnode st of Inl e \<Rightarrow> Inl e | Inr (ds, st') \<Rightarrow> Inr (Some ds, st')))"

text \<open>
  \<^verbatim>\<open>
    const setState = (value) => {
      hooks[idx] = typeof value === 'function' ? value(hooks[idx]) : value;
      rerender();
    };
  \<close>
\<close>

datatype 'w update = SetTo jsv | Updater "'w slot \<Rightarrow> jsv"

definition setState ::
  "('w, 'h) vnode option \<Rightarrow> nat \<Rightarrow> 'w update \<Rightarrow> 'w rt \<Rightarrow> fault + ('h dom list option \<times> 'w rt)" where
  "setState current idx value st =
     (let st1 = st\<lparr>hooks := (hooks st)(idx := Value (case value of SetTo v \<Rightarrow> v | Updater f \<Rightarrow> f (hooks st idx)))\<rparr>
      in rerender current st1)"

section \<open>The persistence hook\<close>

text \<open>
  \<^verbatim>\<open>
  function useLocalStorage(key, initialValue) {
    const [stored, setStored] = useState(() => {
      const raw = window.localStorage.getItem(key);
      if (raw !== null) {
        try {
          return JSON.parse(raw);
        } catch (error) {
          console.warn('Failed to parse localStorage value', error);
        }
      }
      return initialValue;
    });

    useEffect(() => {
      if (stored === undefined) {
        window.localStorage.removeItem(key);
        return;
      }
      window.localStorage.setItem(key, JSON.stringify(stored));
    }, [key, stored]);

    return [stored, setStored];
  }
  \<close>
  The browser state is the local storage, a map from keys to strings. The JSON built-ins are
  parameters: \<open>parse raw = None\<close> when \<^verbatim>\<open>JSON.parse\<close> throws. The warning on the console is
  not modelled.
\<close>

type_synonym storage = "string \<Rightarrow> string option"

definition readStored :: "(string \<Rightarrow> jsv option) \<Rightarrow> string \<Rightarrow> jsv \<Rightarrow> storage \<Rightarrow> jsv" where
  "readStored parse key initialValue w =
     (case w key of
        Some raw \<Rightarrow> (case parse raw of Some v \<Rightarrow> v | None \<Rightarrow> initialValue)
      | None \<Rightarrow> initialValue)"

definition writeStored :: "(jsv \<Rightarrow> string) \<Rightarrow> string \<Rightarrow> jsv \<Rightarrow> storage \<Rightarrow> (storage \<Rightarrow> storage) option \<times> storage" where
  "writeStored stringify key stored w =
     (if stored = VUndefined then (None, w(key := None))
      else (None, w(key := Some (stringify stored))))"

definition useLocalStorage ::
  "(string \<Rightarrow> jsv option) \<Rightarrow> (jsv \<Rightarrow> string) \<Rightarrow> string \<Rightarrow> jsv \<Rightarrow> storage rt \<Rightarrow> fault + (jsv \<times> nat \<times> storage rt)" where
  "useLocalStorage parse stringify key initialValue st =
     (case useState (Lazy (readStored parse key initialValue)) st of
        Inl e \<Rightarrow> Inl e
      | Inr (stored, setStored, st1) \<Rightarrow>
          (case useEffect (writeStored stringify key stored) (Some [VStr key, stored]) st1 of
             Inl e \<Rightarrow> Inl e
           | Inr st2 \<Rightarrow> Inr (stored, setStored, st2)))"

subsection \<open>Components over the runtime, and sample runtime states\<close>

text \<open>The runtime before the first render: no slot written, no effect pending.\<close>

definition emptyRuntime :: "'w \<Rightarrow> 'w rt" where
  "emptyRuntime w = \<lparr>hooks = (\<lambda>i. Value VUndefined), hookIndex = 0, pendingEffects = [], world = w\<rparr>"

text \<open>
  A hook value that a component returns as what it renders (\<^verbatim>\<open>return count;\<close>). The
  objects and arrays that the components below keep in their slots are data, not virtual
  nodes.
\<close>

definition showValue :: "jsv \<Rightarrow> ('w, 'h) vnode" where
  "showValue v =
     (case v of
        VUndefined \<Rightarrow> LeafUndefined
      | VNull \<Rightarrow> LeafNull
      | VBool b \<Rightarrow> LeafBool b
      | VNum n \<Rightarrow> LeafNumber n
      | VStr s \<Rightarrow> LeafText s
      | VRef r \<Rightarrow> LeafObject)"

text \<open>The values that \<open>createDom\<close> turns into a text node when they are given as a child.\<close>

definition showable :: "jsv \<Rightarrow> bool" where
  "showable v =
     (case v of
        VBool b \<Rightarrow> \<not> b
      | VNum n \<Rightarrow> \<bar>n\<bar> < 9007199254740992
      | VRef r \<Rightarrow> False
      | _ \<Rightarrow> True)"

text \<open>
  A component with one state variable, \<^verbatim>\<open>const [count, setCount] = useState(5); return count;\<close>
\<close>

definition counter :: "'h props \<Rightarrow> unit rt \<Rightarrow> (unit, 'h) outcome" where
  "counter props st =
     (case useState (Literal (VNum 5)) st of
        Inl e \<Rightarrow> Threw e
      | Inr (count, setCount, st') \<Rightarrow> Rendered (showValue count) st')"

definition counterRoot :: "(unit, unit) vnode" where
  "counterRoot = ComponentElement counter None []"

text \<open>
  A component whose hooks are state hooks only, one for each initial value, called in the
  order of the list.
\<close>

fun useStates :: "'w initial list \<Rightarrow> 'w rt \<Rightarrow> fault + (jsv list \<times> 'w rt)" where
  "useStates [] st = Inr ([], st)"
| "useStates (i # rest) st =
     (case useState i st of
        Inl e \<Rightarrow> Inl e
      | Inr (v, setter, st1) \<Rightarrow>
          (case useStates rest st1 of Inl e \<Rightarrow> Inl e | Inr (vs, st2) \<Rightarrow> Inr (v # vs, st2)))"

text \<open>The slots from \<open>base\<close> on hold the state values \<open>vs\<close>, none of them \<^verbatim>\<open>undefined\<close>.\<close>

definition definedStates :: "'w rt \<Rightarrow> nat \<Rightarrow> jsv list \<Rightarrow> bool" where
  "definedStates st base vs = (\<forall>k < length vs. hooks st (base + k) = Value (vs ! k) \<and> vs ! k \<noteq> VUndefined)"

text \<open>
  A component that keeps one value in the local storage,
  \<^verbatim>\<open>const [stored, setStored] = useLocalStorage(key, initialValue); return stored;\<close>
\<close>

definition persistent ::
  "(string \<Rightarrow> jsv option) \<Rightarrow> (jsv \<Rightarrow> string) \<Rightarrow> string \<Rightarrow> jsv \<Rightarrow> 'h props \<Rightarrow> storage rt \<Rightarrow> (storage, 'h) outcome" where
  "persistent parse stringify key initialValue props st =
     (case useLocalStorage parse stringify key initialValue st of
        Inl e \<Rightarrow> Threw e
      | Inr (stored, setStored, st') \<Rightarrow> Rendered (showValue stored) st')"

text \<open>Stand-ins for the JSON built-ins on string values, and a storage that holds a token.\<close>

definition sampleParseValue :: "string \<Rightarrow> jsv option" where
  \<open>sampleParseValue raw =
     (if raw = ''"abc"'' then Some (VStr ''abc'')
      else if raw = ''""'' then Some (VStr [])
      else None)\<close>

definition sampleStringifyValue :: "jsv \<Rightarrow> string" where
  \<open>sampleStringifyValue v = (case v of VStr s \<Rightarrow> ''"'' @ s @ ''"'' | _ \<Rightarrow> ''null'')\<close>

definition tokenStorage :: storage where
  \<open>tokenStorage = Map.empty(''hub.token'' \<mapsto> ''"abc"'')\<close>

definition tokenRoot :: "(storage, unit) vnode" where
  "tokenRoot = ComponentElement (persistent sampleParseValue sampleStringifyValue ''hub.token'' (VStr [])) None []"

text \<open>Running one step after another, and reading the result of a step.\<close>

definition andThen :: "fault + ('a \<times> 'w rt) \<Rightarrow> ('w rt \<Rightarrow> fault + ('b \<times> 'w rt)) \<Rightarrow> fault + ('b \<times> 'w rt)" where
  "andThen r f = (case r of Inl e \<Rightarrow> Inl e | Inr (d, st) \<Rightarrow> f st)"

definition contentAfter :: "fault + ('a \<times> 'w rt) \<Rightarrow> 'a option" where
  "contentAfter r = (case r of Inl e \<Rightarrow> None | Inr (d, st) \<Rightarrow> Some d)"

definition slotAfter :: "fault + ('a \<times> 'w rt) \<Rightarrow> nat \<Rightarrow> 'w slot option" where
  "slotAfter r i = (case r of Inl e \<Rightarrow> None | Inr (d, st) \<Rightarrow> Some (hooks st i))"

definition worldAfter :: "fault + ('a \<times> 'w rt) \<Rightarrow> 'w option" where
  "worldAfter r = (case r of Inl e \<Rightarrow> None | Inr (d, st) \<Rightarrow> Some (world st))"

definition storedAfter :: "fault + ('a \<times> storage rt) \<Rightarrow> string \<Rightarrow> string option option" where
  "storedAfter r key = (case r of Inl e \<Rightarrow> None | Inr (d, st) \<Rightarrow> Some (world st key))"







section \<open>The application on the page: setters that re-render\<close>

text \<open>
  On the standalone page every state setter writes its slot and then re-renders the whole
  page (\<^verbatim>\<open>hooks[idx] = ...; rerender();\<close>), and an exception of that re-render leaves the
  setter and ends whatever handler called it, the slot being written already. \<^verbatim>\<open>App\<close>,
  \<^verbatim>\<open>Toast\<close> and \<^verbatim>\<open>ResultPanel\<close> give strings and numbers as children everywhere but in one
  place, the token panel:
  \<^verbatim>\<open>
        token
          ? h('div', { className: 'panel' }, h('strong', null, 'Bearer token'),
              h('p', { style: 'word-break: break-all' }, token))
          : null
  \<close>
  So the re-render throws exactly when the token is truthy and \<open>createDom\<close> throws on a
  child that \<^verbatim>\<open>h\<close> makes of it.

  \<open>createDom\<close> on a JSON value: a string, a number and \<^verbatim>\<open>false\<close> or \<^verbatim>\<open>null\<close> give a text
  node; \<^verbatim>\<open>true\<close>, an array and an object without a \<^verbatim>\<open>children\<close> array end in an exception,
  at \<^verbatim>\<open>vnode.children.forEach\<close> at the latest; an object with a \<^verbatim>\<open>children\<close> array is
  materialised like a virtual node of its fields, which completes or not by the tag and
  attribute names that the DOM accepts and by its children in turn. That last answer is
  the field \<open>nodeRenders\<close> of the environment; nothing below depends on what it is.
\<close>

definition createDomCompletes :: "env \<Rightarrow> json \<Rightarrow> bool" where
  "createDomCompletes e v =
     (case v of
        JNull \<Rightarrow> True
      | JBool b \<Rightarrow> \<not> b
      | JNum n \<Rightarrow> True
      | JStr s \<Rightarrow> True
      | JArr xs \<Rightarrow> False
      | JObj kvs \<Rightarrow> (case map_of kvs ''children'' of Some (JArr cs) \<Rightarrow> nodeRenders e v | _ \<Rightarrow> False))"

text \<open>
  \<^verbatim>\<open>h\<close> flattens its children by one level (\<^verbatim>\<open>children: children.flat()\<close>): a token that is
  an array gives its elements as the children of the paragraph, any other token is the one
  child.
\<close>

definition childRenders :: "env \<Rightarrow> json \<Rightarrow> bool" where
  "childRenders e t =
     (case t of
        JArr xs \<Rightarrow> list_all (createDomCompletes e) xs
      | _ \<Rightarrow> createDomCompletes e t)"

text \<open>
  The bundled page runs on the UI framework, which renders after the handler has returned
  and does not throw into the caller of a setter.
\<close>

definition pageRenders :: "build \<Rightarrow> env \<Rightarrow> app \<Rightarrow> bool" where
  "pageRenders b e st =
     (case b of
        Bundled \<Rightarrow> True
      | Standalone \<Rightarrow> \<not> truthy (token st) \<or> childRenders e (token st))"

text \<open>
  A JSON value as the leaf that \<open>createDom\<close> of the runtime receives. An object with one of
  the fields \<^verbatim>\<open>type\<close>, \<^verbatim>\<open>props\<close> and \<^verbatim>\<open>children\<close> is read by \<open>createDom\<close> as a virtual node
  of those fields and has no leaf that stands for it.
\<close>

definition jsonLeaf :: "json \<Rightarrow> (unit, unit) vnode option" where
  "jsonLeaf v =
     (case v of
        JNull \<Rightarrow> Some LeafNull
      | JBool b \<Rightarrow> Some (LeafBool b)
      | JNum n \<Rightarrow> Some (LeafNumber n)
      | JStr s \<Rightarrow> Some (LeafText s)
      | JArr xs \<Rightarrow> Some LeafObject
      | JObj kvs \<Rightarrow>
          (if map_of kvs ''type'' = None \<and> map_of kvs ''props'' = None \<and> map_of kvs ''children'' = None
           then Some LeafObject
           else None))"

text \<open>
  \<^verbatim>\<open>sendRequest\<close> on the page, setter by setter. \<^verbatim>\<open>setIsLoading(true)\<close> and the first
  \<^verbatim>\<open>setToast\<close> stand before the \<^verbatim>\<open>try\<close>: an exception of their re-render ends the handler
  with nothing fetched and without the \<^verbatim>\<open>finally\<close> block. Inside the \<^verbatim>\<open>try\<close> an exception of
  a re-render is caught like one of \<^verbatim>\<open>fetch\<close>; one inside \<^verbatim>\<open>catch\<close> or \<^verbatim>\<open>finally\<close> ends the
  handler. The first component of the result is \<open>None\<close> when the handler ended by an
  exception, the second is the state as the setters left it.
\<close>

datatype tried = Completed send_result | Raised string

definition tryBlock :: "build \<Rightarrow> env \<Rightarrow> string \<Rightarrow> string \<Rightarrow> fetch_call \<Rightarrow> app \<Rightarrow> tried \<times> app" where
  "tryBlock b e method path call st2 =
     (case awaitResponse e call of
        Throws msg \<Rightarrow> (Raised msg, st2)
      | Returns (res, text) \<Rightarrow>
          (let parsed = (case JSON_parse e text of None \<Rightarrow> JStr text | Some j \<Rightarrow> j);
               payload = \<lparr>r_method = method, r_path = path, r_status = Code (res_status res), r_data = parsed\<rparr>;
               st3 = st2\<lparr>response := Some payload\<rparr>
           in if \<not> pageRenders b e st3 then (Raised (renderErrorMessage e), st3)
              else (let st4 = st3\<lparr>toast := responseToast b method path res\<rparr>
                    in if \<not> pageRenders b e st4 then (Raised (renderErrorMessage e), st4)
                       else (Completed \<lparr>ok = res_ok res, data = Parsed parsed\<rparr>, st4))))"

definition catchBlock :: "build \<Rightarrow> env \<Rightarrow> string \<Rightarrow> string \<Rightarrow> string \<Rightarrow> app \<Rightarrow> send_result option \<times> app" where
  "catchBlock b e method path msg st =
     (let st3 = st\<lparr>toast := \<lparr>tone = Error, message = msg\<rparr>\<rparr>
      in if \<not> pageRenders b e st3 then (None, st3)
         else (let st4 = st3\<lparr>response := Some \<lparr>r_method = method, r_path = path,
                                                 r_status = ErrorSentinel, r_data = JStr msg\<rparr>\<rparr>
               in if \<not> pageRenders b e st4 then (None, st4)
                  else (Some \<lparr>ok = False, data = Exception msg\<rparr>, st4)))"

definition sendRequestOnPage ::
  "build \<Rightarrow> env \<Rightarrow> send_args \<Rightarrow> app \<Rightarrow> send_result option \<times> app \<times> fetch_call list" where
  "sendRequestOnPage b e args st0 =
     (let path = arg_path args;
          method = argMethod args;
          st1 = st0\<lparr>isLoading := True\<rparr>
      in if \<not> pageRenders b e st1 then (None, st1, [])
         else
           (let st2 = st1\<lparr>toast := \<lparr>tone = Success, message = []\<rparr>\<rparr>
            in if \<not> pageRenders b e st2 then (None, st2, [])
               else
                 (let call = requestConfig e args st0;
                      (outcome, st5) =
                        (case tryBlock b e method path call st2 of
                           (Completed result, st4) \<Rightarrow> (Some result, st4)
                         | (Raised msg, st4) \<Rightarrow> catchBlock b e method path msg st4);
                      st6 = st5\<lparr>isLoading := False\<rparr>
                  in if \<not> pageRenders b e st6 then (None, st6, [call])
                     else (outcome, st6, [call]))))"

text \<open>
  The handlers on the page. Each awaits \<^verbatim>\<open>sendRequest\<close> and ends with it when it ends by an
  exception; \<^verbatim>\<open>handleLogin\<close> also ends at \<^verbatim>\<open>setToken\<close> when the page cannot show the
  token it has just stored. The last setter of a handler leaves the same state whether or
  not its re-render throws.
\<close>

definition handleLoginOnPage :: "build \<Rightarrow> env \<Rightarrow> app \<Rightarrow> app \<times> fetch_call list" where
  "handleLoginOnPage b e st0 =
     (case sendRequestOnPage b e (loginArgs st0) st0 of
        (None, st1, calls) \<Rightarrow> (st1, calls)
      | (Some result, st1, calls) \<Rightarrow>
          if ok result
          then (case data result of
                  Parsed d \<Rightarrow>
                    (case getProp d ''access_token'' of
                       Some t \<Rightarrow>
                         if truthy t
                         then (let st2 = st1\<lparr>token := t\<rparr>
                               in if \<not> pageRenders b e st2 then (st2, calls)
                                  else (st2\<lparr>toast := \<lparr>tone = Success,
                                                       message = ''Signed in as '' @ signedInAs b e d (username st0)\<rparr>\<rparr>,
                                        calls))
                         else (st1, calls)
                     | None \<Rightarrow> (st1, calls))
                | Exception msg \<Rightarrow> (st1, calls))
          else (st1, calls))"

definition handleLogoutOnPage :: "build \<Rightarrow> env \<Rightarrow> app \<Rightarrow> app \<times> fetch_call list" where
  "handleLogoutOnPage b e st0 =
     (case sendRequestOnPage b e logoutArgs st0 of
        (None, st1, calls) \<Rightarrow> (st1, calls)
      | (Some result, st1, calls) \<Rightarrow>
          (let st2 = st1\<lparr>token := JStr []\<rparr>
           in if \<not> pageRenders b e st2 then (st2, calls)
              else (st2\<lparr>toast := \<lparr>tone = Success, message = ''Logged out and token cleared''\<rparr>\<rparr>, calls)))"

definition handleCustomOnPage :: "build \<Rightarrow> env \<Rightarrow> app \<Rightarrow> app \<times> fetch_call list" where
  "handleCustomOnPage b e st0 =
     (if trim (customBody st0) \<noteq> []
      then (case JSON_parse e (customBody st0) of
              None \<Rightarrow> (st0\<lparr>toast := \<lparr>tone = Error, message = ''Request body must be valid JSON''\<rparr>\<rparr>, [])
            | Some j \<Rightarrow> snd (sendRequestOnPage b e (customArgs st0 (Some j)) st0))
      else snd (sendRequestOnPage b e (customArgs st0 None) st0))"

definition quickActionOnPage :: "build \<Rightarrow> env \<Rightarrow> string \<Rightarrow> app \<Rightarrow> app \<times> fetch_call list" where
  "quickActionOnPage b e path st0 = snd (sendRequestOnPage b e (quickArgs path) st0)"

subsection \<open>Sample answers and states of the page\<close>



definition unreadable :: "http_res completion" where
  "unreadable = Returns \<lparr>res_status = 401, res_text = Throws ''body stream interrupted''\<rparr>"

section \<open>Properties of URL construction\<close>

lemma endsWithSlash_snoc [simp]: "endsWithSlash (s @ [c]) = (c = CHR ''/'')"
  by (simp add: endsWithSlash_def)

lemma startsWithSlash_Cons [simp]: "startsWithSlash (c # s) = (c = CHR ''/'')"
  by (simp add: startsWithSlash_def)

lemma startsWithSlash_Nil [simp]: "\<not> startsWithSlash []"
  by (simp add: startsWithSlash_def)

lemma replaceTrailingSlash_snoc [simp]: "replaceTrailingSlash (s @ ''/'') = s"
  by (simp add: replaceTrailingSlash_def)

lemma replaceTrailingSlash_id: "\<not> endsWithSlash s \<Longrightarrow> replaceTrailingSlash s = s"
  by (simp add: replaceTrailingSlash_def)

lemma buildUrl_four_shapes:
  assumes "\<not> endsWithSlash b" and "\<not> startsWithSlash p"
  shows "buildUrl b p = b @ ''/'' @ p"
    and "buildUrl (b @ ''/'') p = b @ ''/'' @ p"
    and "buildUrl b (''/'' @ p) = b @ ''/'' @ p"
    and "buildUrl (b @ ''/'') (''/'' @ p) = b @ ''/'' @ p"
  using assms by (simp_all add: buildUrl_def replaceTrailingSlash_id)

text \<open>
  In general \<open>buildUrl\<close> takes one trailing slash off the base and one leading slash off the
  path, where there is one, and puts one slash between what is left.
\<close>

lemma buildUrl_strips_one_each:
  "buildUrl b p = replaceTrailingSlash b @ ''/'' @ withoutLeadingSlash p"
proof (cases p)
  case Nil
  then show ?thesis by (simp add: buildUrl_def withoutLeadingSlash_def)
next
  case (Cons c cs)
  then show ?thesis by (simp add: buildUrl_def withoutLeadingSlash_def)
qed

text \<open>
  Claim C1, as stated, at a base URL that ends with two slashes and a path that starts with
  two: the result has three slashes between \<open>x\<close> and \<open>y\<close>, since one trailing slash is taken
  from the base and none is added before a path that starts with one.
\<close>

theorem buildUrl_double_slash_counterexample:
  "buildUrl ''http://x//'' ''//y'' = ''http://x///y''"
  by (simp add: buildUrl_def replaceTrailingSlash_def endsWithSlash_def startsWithSlash_def)

text \<open>
  Claim C1, amended. For every base URL that does not end with a slash and every path that
  does not start with one, \<open>buildUrl\<close> gives the base, exactly one \<open>/\<close>, and the path,
  whether or not one slash is appended to the base and whether or not one slash is put
  before the path; in particular \<open>buildUrl "http://x/" "/y"\<close> and \<open>buildUrl "http://x" "y"\<close>
  are both \<open>"http://x/y"\<close>.
\<close>

theorem buildUrl_one_separator:
  assumes "\<not> endsWithSlash base" and "\<not> startsWithSlash path"
  shows "buildUrl base path = base @ ''/'' @ path
       \<and> buildUrl (base @ ''/'') path = base @ ''/'' @ path
       \<and> buildUrl base (''/'' @ path) = base @ ''/'' @ path
       \<and> buildUrl (base @ ''/'') (''/'' @ path) = base @ ''/'' @ path
       \<and> buildUrl ''http://x/'' ''/y'' = ''http://x/y''
       \<and> buildUrl ''http://x'' ''y'' = ''http://x/y''"
proof -
  have ex1: "buildUrl ''http://x/'' ''/y'' = ''http://x/y''"
    by (simp add: buildUrl_def replaceTrailingSlash_def endsWithSlash_def)
  have ex2: "buildUrl ''http://x'' ''y'' = ''http://x/y''"
    by (simp add: buildUrl_def replaceTrailingSlash_def endsWithSlash_def)
  from buildUrl_four_shapes [OF assms] ex1 ex2 show ?thesis by blast
qed

theorem buildUrl_one_separator_witness:
  "\<not> endsWithSlash ''http://hub:8080/api'' \<and> \<not> startsWithSlash ''nodes''
   \<and> buildUrl ''http://hub:8080/api'' ''nodes'' = ''http://hub:8080/api/nodes''
   \<and> buildUrl ''http://hub:8080/api/'' ''nodes'' = ''http://hub:8080/api/nodes''
   \<and> buildUrl ''http://hub:8080/api'' ''/nodes'' = ''http://hub:8080/api/nodes''
   \<and> buildUrl ''http://hub:8080/api/'' ''/nodes'' = ''http://hub:8080/api/nodes''"
proof -
  have base: "\<not> endsWithSlash ''http://hub:8080/api''"
    by (simp add: endsWithSlash_def)
  have path: "\<not> startsWithSlash ''nodes''"
    by (simp add: startsWithSlash_def)
  note fact = buildUrl_one_separator [OF base path]
  from base path fact show ?thesis by simp
qed

section \<open>Properties of request dispatch\<close>

lemma sendRequest_returns:
  assumes "awaitResponse e (requestConfig e args st) = Returns (res, text)"
  shows "sendRequest b e args st =
    (\<lparr>ok = res_ok res, data = Parsed (case JSON_parse e text of None \<Rightarrow> JStr text | Some j \<Rightarrow> j)\<rparr>,
     st\<lparr>isLoading := False,
        response := Some \<lparr>r_method = argMethod args, r_path = arg_path args, r_status = Code (res_status res),
                          r_data = (case JSON_parse e text of None \<Rightarrow> JStr text | Some j \<Rightarrow> j)\<rparr>,
        toast := responseToast b (argMethod args) (arg_path args) res\<rparr>,
     [requestConfig e args st])"
  using assms by (simp add: sendRequest_def Let_def)

lemma sendRequest_throws:
  assumes "awaitResponse e (requestConfig e args st) = Throws msg"
  shows "sendRequest b e args st =
    (\<lparr>ok = False, data = Exception msg\<rparr>,
     st\<lparr>isLoading := False,
        toast := \<lparr>tone = Error, message = msg\<rparr>,
        response := Some \<lparr>r_method = argMethod args, r_path = arg_path args, r_status = ErrorSentinel,
                          r_data = JStr msg\<rparr>\<rparr>,
     [requestConfig e args st])"
  using assms by (simp add: sendRequest_def Let_def)

lemma responseToast_failed: "\<not> res_ok res \<Longrightarrow> tone (responseToast b m p res) = Error"
  by (cases b) (simp_all add: responseToast_def)

lemma responseToast_succeeded: "res_ok res \<Longrightarrow> tone (responseToast b m p res) = Success"
  by (cases b) (simp_all add: responseToast_def)

lemma sendRequest_calls: "snd (snd (sendRequest b e args st)) = [requestConfig e args st]"
  by (simp add: sendRequest_def Let_def split: completion.splits prod.splits)


lemma sendRequest_token: "token (fst (snd (sendRequest b e args st))) = token st"
  by (cases "awaitResponse e (requestConfig e args st)") (auto simp: sendRequest_returns sendRequest_throws)

lemma quickAction_dispatch:
  "quickAction b e p st = snd (sendRequest b e (quickArgs p) st)"
  by (simp add: quickAction_def)




text \<open>Whether the page renders depends on the token only.\<close>

lemma pageRenders_token: "token st' = token st \<Longrightarrow> pageRenders b e st' = pageRenders b e st"
  by (cases b) (simp_all add: pageRenders_def)

lemma pageRenders_updates:
  "pageRenders b e (st\<lparr>isLoading := l\<rparr>) = pageRenders b e st"
  "pageRenders b e (st\<lparr>toast := t\<rparr>) = pageRenders b e st"
  "pageRenders b e (st\<lparr>response := r\<rparr>) = pageRenders b e st"
  by (cases b; simp add: pageRenders_def)+

lemma sendRequestOnPage_stuck:
  assumes "\<not> pageRenders b e st"
  shows "sendRequestOnPage b e args st = (None, st\<lparr>isLoading := True\<rparr>, [])"
proof -
  have "\<not> pageRenders b e (st\<lparr>isLoading := True\<rparr>)"
    using assms by (simp add: pageRenders_updates)
  then show ?thesis
    by (simp add: sendRequestOnPage_def Let_def)
qed

text \<open>
  Where the page can show its token, every re-render of a dispatch completes (no setter of
  \<^verbatim>\<open>sendRequest\<close> writes the token), and the dispatch on the page is \<open>sendRequest\<close>.
\<close>

lemma sendRequestOnPage_renders:
  assumes "pageRenders b e st"
  shows "sendRequestOnPage b e args st =
     (Some (fst (sendRequest b e args st)), fst (snd (sendRequest b e args st)), [requestConfig e args st])"
proof (cases "awaitResponse e (requestConfig e args st)")
  case (Throws msg)
  then show ?thesis
    using assms
    by (simp add: sendRequestOnPage_def tryBlock_def catchBlock_def sendRequest_throws Let_def pageRenders_updates)
next
  case (Returns answer)
  obtain res content where answer: "answer = (res, content)"
    by (cases answer)
  show ?thesis
    using assms Returns answer
    by (simp add: sendRequestOnPage_def tryBlock_def sendRequest_returns Let_def pageRenders_updates)
qed

lemma sendRequestOnPage_calls:
  "snd (snd (sendRequestOnPage b e args st)) = (if pageRenders b e st then [requestConfig e args st] else [])"
  by (simp add: sendRequestOnPage_renders sendRequestOnPage_stuck)

lemma sendRequestOnPage_called:
  assumes "snd (snd (sendRequestOnPage b e args st)) = [call]"
  shows "pageRenders b e st" and "call = requestConfig e args st"
  using assms by (simp_all add: sendRequestOnPage_calls split: if_splits)

lemma handleLoginOnPage_called:
  assumes "snd (handleLoginOnPage b e st) = [call]"
  shows "snd (snd (sendRequestOnPage b e (loginArgs st) st)) = [call]"
proof (cases "pageRenders b e st")
  case True
  then show ?thesis
    using assms
    by (simp add: handleLoginOnPage_def sendRequestOnPage_renders Let_def
        split: result_data.splits option.splits if_splits)
next
  case False
  then show ?thesis
    using assms by (simp add: handleLoginOnPage_def sendRequestOnPage_stuck)
qed

lemma handleLogoutOnPage_called:
  assumes "snd (handleLogoutOnPage b e st) = [call]"
  shows "snd (snd (sendRequestOnPage b e logoutArgs st)) = [call]"
proof (cases "pageRenders b e st")
  case True
  then show ?thesis
    using assms
    by (simp add: handleLogoutOnPage_def sendRequestOnPage_renders Let_def split: if_splits)
next
  case False
  then show ?thesis
    using assms by (simp add: handleLogoutOnPage_def sendRequestOnPage_stuck)
qed

lemma pageRenders_cleared: "pageRenders b e (st\<lparr>token := JStr []\<rparr>)"
  by (cases b) (simp_all add: pageRenders_def)

text \<open>
  Where the page can show its token, and can show the token that the hub returns, the login
  on the page is \<open>handleLogin\<close>; the logout and the custom call on the page are
  \<open>handleLogout\<close> and \<open>handleCustom\<close>.
\<close>

lemma handleLogoutOnPage_renders:
  assumes "pageRenders b e st"
  shows "handleLogoutOnPage b e st = handleLogout b e st"
proof -
  obtain result st1 calls where sent: "sendRequest b e logoutArgs st = (result, st1, calls)"
    by (cases "sendRequest b e logoutArgs st")
  have calls: "calls = [requestConfig e logoutArgs st]"
    using sendRequest_calls [of b e logoutArgs st] sent by simp
  have page: "sendRequestOnPage b e logoutArgs st = (Some result, st1, calls)"
    using assms sent calls by (simp add: sendRequestOnPage_renders)
  show ?thesis
    by (simp add: handleLogoutOnPage_def handleLogout_def page sent pageRenders_cleared Let_def)
qed

lemma handleCustomOnPage_renders:
  assumes "pageRenders b e st"
  shows "handleCustomOnPage b e st = handleCustom b e st"
proof -
  have "snd (sendRequestOnPage b e args st) = snd (sendRequest b e args st)" for args
    using assms by (simp add: sendRequestOnPage_renders prod_eq_iff sendRequest_calls)
  then show ?thesis
    by (simp add: handleCustomOnPage_def handleCustom_def split: option.splits)
qed

lemma handleLoginOnPage_renders:
  assumes "pageRenders b e st" and "pageRenders b e (fst (handleLogin b e st))"
  shows "handleLoginOnPage b e st = handleLogin b e st"
proof -
  obtain result st1 calls where sent: "sendRequest b e (loginArgs st) st = (result, st1, calls)"
    by (cases "sendRequest b e (loginArgs st) st")
  have calls: "calls = [requestConfig e (loginArgs st) st]"
    using sendRequest_calls [of b e "loginArgs st" st] sent by simp
  have page: "sendRequestOnPage b e (loginArgs st) st = (Some result, st1, calls)"
    using assms(1) sent calls by (simp add: sendRequestOnPage_renders)
  show ?thesis
    using assms(2)
    by (auto simp: handleLoginOnPage_def handleLogin_def page sent Let_def pageRenders_updates
        split: result_data.splits option.splits)
qed

text \<open>
  A login that the hub answers with a string as \<^verbatim>\<open>access_token\<close> is, on a page that can
  show its token, \<open>handleLogin\<close>.
\<close>

lemma handleLoginOnPage_string_token:
  assumes "pageRenders b e st"
    and "awaitResponse e (requestConfig e (loginArgs st) st) = Returns (res, content)"
    and "JSON_parse e content = Some (JObj props)"
    and "map_of props ''access_token'' = Some (JStr tok)"
  shows "handleLoginOnPage b e st = handleLogin b e st"
proof (rule handleLoginOnPage_renders [OF assms(1)])
  have "token (fst (handleLogin b e st)) = token st \<or> token (fst (handleLogin b e st)) = JStr tok"
    using assms(2-4) by (simp add: handleLogin_def sendRequest_returns)
  then show "pageRenders b e (fst (handleLogin b e st))"
  proof
    assume "token (fst (handleLogin b e st)) = token st"
    then show ?thesis
      using assms(1) pageRenders_token [where st' = "fst (handleLogin b e st)" and st = st and b = b and e = e]
      by simp
  next
    assume "token (fst (handleLogin b e st)) = JStr tok"
    then show ?thesis
      by (cases b) (simp_all add: pageRenders_def childRenders_def createDomCompletes_def)
  qed
qed

lemma handleLogout_calls: "snd (handleLogout b e st) = [requestConfig e logoutArgs st]"
proof -
  obtain result st1 calls where sent: "sendRequest b e logoutArgs st = (result, st1, calls)"
    by (cases "sendRequest b e logoutArgs st")
  then have "calls = [requestConfig e logoutArgs st]"
    using sendRequest_calls [of b e logoutArgs st] by simp
  then show ?thesis
    by (simp add: handleLogout_def sent Let_def)
qed

text \<open>
  Claim C2, as stated, at two inputs. At the logout flow: the hub answers 401 to a signed-in
  page; the flow then clears the token and shows a success toast, on the page as in the
  dispatch alone. At a response whose body cannot be read: the hub answers 401 and reading
  the body throws; the response record then carries the sentinel \<open>error\<close>, not the status.
\<close>

theorem handleLogout_non2xx_counterexample:
  "awaitResponse (sampleHub unauthorized)
       (requestConfig (sampleHub unauthorized) logoutArgs (signedIn (sampleHub unauthorized)))
     = Returns (\<lparr>res_status = 401, res_text = Returns ''Unauthorized''\<rparr>, ''Unauthorized'')
   \<and> \<not> res_ok \<lparr>res_status = 401, res_text = Returns ''Unauthorized''\<rparr>
   \<and> token (signedIn (sampleHub unauthorized)) = JStr ''abc''
   \<and> token (fst (handleLogout Standalone (sampleHub unauthorized) (signedIn (sampleHub unauthorized)))) = JStr ''''
   \<and> tone (toast (fst (handleLogout Standalone (sampleHub unauthorized) (signedIn (sampleHub unauthorized))))) = Success
   \<and> snd (handleLogoutOnPage Standalone (sampleHub unauthorized) (signedIn (sampleHub unauthorized)))
     = [requestConfig (sampleHub unauthorized) logoutArgs (signedIn (sampleHub unauthorized))]
   \<and> token (fst (handleLogoutOnPage Standalone (sampleHub unauthorized) (signedIn (sampleHub unauthorized)))) = JStr ''''
   \<and> tone (toast (fst (handleLogoutOnPage Standalone (sampleHub unauthorized) (signedIn (sampleHub unauthorized))))) = Success
   \<and> fetch (sampleHub unreadable)
       (requestConfig (sampleHub unreadable) (quickArgs ''/health'') (signedIn (sampleHub unreadable)))
     = Returns \<lparr>res_status = 401, res_text = Throws ''body stream interrupted''\<rparr>
   \<and> \<not> res_ok \<lparr>res_status = 401, res_text = Throws ''body stream interrupted''\<rparr>
   \<and> snd (snd (sendRequestOnPage Standalone (sampleHub unreadable) (quickArgs ''/health'') (signedIn (sampleHub unreadable))))
     = [requestConfig (sampleHub unreadable) (quickArgs ''/health'') (signedIn (sampleHub unreadable))]
   \<and> map_option r_status (response (fst (snd
         (sendRequestOnPage Standalone (sampleHub unreadable) (quickArgs ''/health'') (signedIn (sampleHub unreadable))))))
     = Some ErrorSentinel"
proof -
  have alone: "awaitResponse (sampleHub unauthorized)
       (requestConfig (sampleHub unauthorized) logoutArgs (signedIn (sampleHub unauthorized)))
     = Returns (\<lparr>res_status = 401, res_text = Returns ''Unauthorized''\<rparr>, ''Unauthorized'')
   \<and> \<not> res_ok \<lparr>res_status = 401, res_text = Returns ''Unauthorized''\<rparr>
   \<and> token (signedIn (sampleHub unauthorized)) = JStr ''abc''
   \<and> token (fst (handleLogout Standalone (sampleHub unauthorized) (signedIn (sampleHub unauthorized)))) = JStr ''''
   \<and> tone (toast (fst (handleLogout Standalone (sampleHub unauthorized) (signedIn (sampleHub unauthorized))))) = Success"
    by (simp add: awaitResponse_def sampleHub_def unauthorized_def res_ok_def handleLogout_def signedIn_def
        initialApp_def sendRequest_def Let_def)
  have shown: "pageRenders Standalone e (signedIn e)" for e
    by (simp add: pageRenders_def signedIn_def childRenders_def createDomCompletes_def)
  have page: "handleLogoutOnPage Standalone (sampleHub unauthorized) (signedIn (sampleHub unauthorized))
      = handleLogout Standalone (sampleHub unauthorized) (signedIn (sampleHub unauthorized))"
    by (rule handleLogoutOnPage_renders [OF shown])
  have called: "snd (handleLogout Standalone (sampleHub unauthorized) (signedIn (sampleHub unauthorized)))
     = [requestConfig (sampleHub unauthorized) logoutArgs (signedIn (sampleHub unauthorized))]"
    by (rule handleLogout_calls)
  have answer: "fetch (sampleHub unreadable) call
     = Returns \<lparr>res_status = 401, res_text = Throws ''body stream interrupted''\<rparr>" for call
    by (simp add: sampleHub_def unreadable_def)
  have failed: "\<not> res_ok \<lparr>res_status = 401, res_text = Throws ''body stream interrupted''\<rparr>"
    by (simp add: res_ok_def)
  have thrown: "awaitResponse (sampleHub unreadable) call = Throws ''body stream interrupted''" for call
    by (simp add: awaitResponse_def answer)
  have unread: "sendRequestOnPage Standalone (sampleHub unreadable) (quickArgs ''/health'') (signedIn (sampleHub unreadable))
      = (Some (fst (sendRequest Standalone (sampleHub unreadable) (quickArgs ''/health'') (signedIn (sampleHub unreadable)))),
         fst (snd (sendRequest Standalone (sampleHub unreadable) (quickArgs ''/health'') (signedIn (sampleHub unreadable)))),
         [requestConfig (sampleHub unreadable) (quickArgs ''/health'') (signedIn (sampleHub unreadable))])"
    by (rule sendRequestOnPage_renders [OF shown])
  have sentinel: "map_option r_status (response (fst (snd
         (sendRequest Standalone (sampleHub unreadable) (quickArgs ''/health'') (signedIn (sampleHub unreadable))))))
     = Some ErrorSentinel"
    by (simp add: sendRequest_throws [OF thrown])
  from alone called answer failed sentinel show ?thesis
    by (simp add: page unread)
qed

text \<open>
  Claim C2, amended. For every request dispatched by \<open>sendRequest\<close> (quick actions, custom
  calls, the login flow) whose network call is answered with a status outside 200..299 and
  whose response body is then read, the state after the dispatch has a response record with
  that status, an error-toned toast, and the token it had before; the login flow leaves that
  state as it is. When reading the body of such a response throws instead, the response
  record carries the sentinel \<open>error\<close>, the toast is error-toned with the message of the
  exception, and the token is again the one before. The logout flow, when the body is read,
  keeps the response record with that status, and then clears the token and replaces the
  toast by its own success toast.
\<close>

theorem non2xx_response_recorded:
  assumes "fetch e call = Returns res" and "\<not> res_ok res"
  shows "(snd (snd (sendRequestOnPage b e args st)) = [call] \<and> res_text res = Returns content \<longrightarrow>
            map_option r_status (response (fst (snd (sendRequestOnPage b e args st)))) = Some (Code (res_status res))
          \<and> tone (toast (fst (snd (sendRequestOnPage b e args st)))) = Error
          \<and> token (fst (snd (sendRequestOnPage b e args st))) = token st)
       \<and> (snd (handleLoginOnPage b e st) = [call] \<and> res_text res = Returns content \<longrightarrow>
            fst (handleLoginOnPage b e st) = fst (snd (sendRequestOnPage b e (loginArgs st) st))
          \<and> map_option r_status (response (fst (handleLoginOnPage b e st))) = Some (Code (res_status res))
          \<and> tone (toast (fst (handleLoginOnPage b e st))) = Error
          \<and> token (fst (handleLoginOnPage b e st)) = token st)
       \<and> (snd (handleLogoutOnPage b e st) = [call] \<and> res_text res = Returns content \<longrightarrow>
            map_option r_status (response (fst (handleLogoutOnPage b e st))) = Some (Code (res_status res))
          \<and> token (fst (handleLogoutOnPage b e st)) = JStr ''''
          \<and> toast (fst (handleLogoutOnPage b e st)) = \<lparr>tone = Success, message = ''Logged out and token cleared''\<rparr>)
       \<and> (snd (snd (sendRequestOnPage b e args st)) = [call] \<and> res_text res = Throws msg \<longrightarrow>
            map_option r_status (response (fst (snd (sendRequestOnPage b e args st)))) = Some ErrorSentinel
          \<and> toast (fst (snd (sendRequestOnPage b e args st))) = \<lparr>tone = Error, message = msg\<rparr>
          \<and> token (fst (snd (sendRequestOnPage b e args st))) = token st)"
proof -
  have sent: "map_option r_status (response (fst (snd (sendRequestOnPage b e args' st)))) = Some (Code (res_status res))
          \<and> tone (toast (fst (snd (sendRequestOnPage b e args' st)))) = Error
          \<and> token (fst (snd (sendRequestOnPage b e args' st))) = token st
          \<and> fst (sendRequestOnPage b e args' st) \<noteq> None
          \<and> (\<forall>result. fst (sendRequestOnPage b e args' st) = Some result \<longrightarrow> \<not> ok result)"
    if called: "snd (snd (sendRequestOnPage b e args' st)) = [call]" and content: "res_text res = Returns content"
    for args'
  proof -
    have shown: "pageRenders b e st" and call: "call = requestConfig e args' st"
      using sendRequestOnPage_called [OF called] by simp_all
    have answered: "awaitResponse e (requestConfig e args' st) = Returns (res, content)"
      using assms(1) content call by (simp add: awaitResponse_def)
    show ?thesis
      using assms(2)
      by (simp add: sendRequestOnPage_renders [OF shown] sendRequest_returns [OF answered] responseToast_failed)
  qed
  have unread: "map_option r_status (response (fst (snd (sendRequestOnPage b e args st)))) = Some ErrorSentinel
          \<and> toast (fst (snd (sendRequestOnPage b e args st))) = \<lparr>tone = Error, message = msg\<rparr>
          \<and> token (fst (snd (sendRequestOnPage b e args st))) = token st"
    if called: "snd (snd (sendRequestOnPage b e args st)) = [call]" and thrown: "res_text res = Throws msg"
  proof -
    have shown: "pageRenders b e st" and call: "call = requestConfig e args st"
      using sendRequestOnPage_called [OF called] by simp_all
    have answered: "awaitResponse e (requestConfig e args st) = Throws msg"
      using assms(1) thrown call by (simp add: awaitResponse_def)
    show ?thesis
      by (simp add: sendRequestOnPage_renders [OF shown] sendRequest_throws [OF answered])
  qed
  have login: "fst (handleLoginOnPage b e st) = fst (snd (sendRequestOnPage b e (loginArgs st) st))"
    if called: "snd (handleLoginOnPage b e st) = [call]" and content: "res_text res = Returns content"
  proof -
    note dispatched = handleLoginOnPage_called [OF called]
    from sent [OF dispatched content]
    obtain result where result: "fst (sendRequestOnPage b e (loginArgs st) st) = Some result" and failed: "\<not> ok result"
      by auto
    obtain st1 calls where "sendRequestOnPage b e (loginArgs st) st = (Some result, st1, calls)"
      using result by (cases "sendRequestOnPage b e (loginArgs st) st") auto
    then show ?thesis
      using failed by (simp add: handleLoginOnPage_def)
  qed
  have logout: "map_option r_status (response (fst (handleLogoutOnPage b e st))) = Some (Code (res_status res))
          \<and> token (fst (handleLogoutOnPage b e st)) = JStr ''''
          \<and> toast (fst (handleLogoutOnPage b e st)) = \<lparr>tone = Success, message = ''Logged out and token cleared''\<rparr>"
    if called: "snd (handleLogoutOnPage b e st) = [call]" and content: "res_text res = Returns content"
  proof -
    note dispatched = handleLogoutOnPage_called [OF called]
    from sent [OF dispatched content]
    obtain result where result: "fst (sendRequestOnPage b e logoutArgs st) = Some result"
      and status: "map_option r_status (response (fst (snd (sendRequestOnPage b e logoutArgs st)))) = Some (Code (res_status res))"
      by auto
    obtain st1 calls where page: "sendRequestOnPage b e logoutArgs st = (Some result, st1, calls)"
      using result by (cases "sendRequestOnPage b e logoutArgs st") auto
    show ?thesis
      using status by (simp add: handleLogoutOnPage_def page pageRenders_cleared Let_def)
  qed
  show ?thesis
  proof (intro conjI impI)
    assume h: "snd (snd (sendRequestOnPage b e args st)) = [call] \<and> res_text res = Returns content"
    then have called: "snd (snd (sendRequestOnPage b e args st)) = [call]" and content: "res_text res = Returns content"
      by simp_all
    from sent [OF called content]
    show "map_option r_status (response (fst (snd (sendRequestOnPage b e args st)))) = Some (Code (res_status res))"
      and "tone (toast (fst (snd (sendRequestOnPage b e args st)))) = Error"
      and "token (fst (snd (sendRequestOnPage b e args st))) = token st"
      by simp_all
  next
    assume h: "snd (handleLoginOnPage b e st) = [call] \<and> res_text res = Returns content"
    then have called: "snd (handleLoginOnPage b e st) = [call]" and content: "res_text res = Returns content"
      by simp_all
    note same = login [OF called content]
    note facts = sent [OF handleLoginOnPage_called [OF called] content]
    show "fst (handleLoginOnPage b e st) = fst (snd (sendRequestOnPage b e (loginArgs st) st))"
      by (rule same)
    show "map_option r_status (response (fst (handleLoginOnPage b e st))) = Some (Code (res_status res))"
      using facts by (simp add: same)
    show "tone (toast (fst (handleLoginOnPage b e st))) = Error"
      using facts by (simp add: same)
    show "token (fst (handleLoginOnPage b e st)) = token st"
      using facts by (simp add: same)
  next
    assume h: "snd (handleLogoutOnPage b e st) = [call] \<and> res_text res = Returns content"
    then have called: "snd (handleLogoutOnPage b e st) = [call]" and content: "res_text res = Returns content"
      by simp_all
    from logout [OF called content]
    show "map_option r_status (response (fst (handleLogoutOnPage b e st))) = Some (Code (res_status res))"
      and "token (fst (handleLogoutOnPage b e st)) = JStr ''''"
      and "toast (fst (handleLogoutOnPage b e st)) = \<lparr>tone = Success, message = ''Logged out and token cleared''\<rparr>"
      by simp_all
  next
    assume h: "snd (snd (sendRequestOnPage b e args st)) = [call] \<and> res_text res = Throws msg"
    then have called: "snd (snd (sendRequestOnPage b e args st)) = [call]" and thrown: "res_text res = Throws msg"
      by simp_all
    from unread [OF called thrown]
    show "map_option r_status (response (fst (snd (sendRequestOnPage b e args st)))) = Some ErrorSentinel"
      and "toast (fst (snd (sendRequestOnPage b e args st))) = \<lparr>tone = Error, message = msg\<rparr>"
      and "token (fst (snd (sendRequestOnPage b e args st))) = token st"
      by simp_all
  qed
qed

theorem non2xx_response_recorded_witness:
  "fetch (sampleHub unauthorized) (requestConfig (sampleHub unauthorized) logoutArgs (signedIn (sampleHub unauthorized)))
     = Returns \<lparr>res_status = 401, res_text = Returns ''Unauthorized''\<rparr>
   \<and> \<not> res_ok \<lparr>res_status = 401, res_text = Returns ''Unauthorized''\<rparr>
   \<and> snd (snd (sendRequestOnPage Standalone (sampleHub unauthorized) logoutArgs (signedIn (sampleHub unauthorized))))
     = [requestConfig (sampleHub unauthorized) logoutArgs (signedIn (sampleHub unauthorized))]
   \<and> map_option r_status (response (fst (snd
        (sendRequestOnPage Standalone (sampleHub unauthorized) logoutArgs (signedIn (sampleHub unauthorized))))))
     = Some (Code 401)
   \<and> tone (toast (fst (snd
        (sendRequestOnPage Standalone (sampleHub unauthorized) logoutArgs (signedIn (sampleHub unauthorized)))))) = Error
   \<and> token (fst (snd
        (sendRequestOnPage Standalone (sampleHub unauthorized) logoutArgs (signedIn (sampleHub unauthorized))))) = JStr ''abc''
   \<and> snd (handleLogoutOnPage Standalone (sampleHub unauthorized) (signedIn (sampleHub unauthorized)))
     = [requestConfig (sampleHub unauthorized) logoutArgs (signedIn (sampleHub unauthorized))]
   \<and> map_option r_status (response (fst (handleLogoutOnPage Standalone (sampleHub unauthorized) (signedIn (sampleHub unauthorized)))))
     = Some (Code 401)
   \<and> token (fst (handleLogoutOnPage Standalone (sampleHub unauthorized) (signedIn (sampleHub unauthorized)))) = JStr ''''
   \<and> snd (handleLoginOnPage Standalone (sampleHub unauthorized) (typedCredentials (sampleHub unauthorized)))
     = [requestConfig (sampleHub unauthorized) (loginArgs (typedCredentials (sampleHub unauthorized)))
          (typedCredentials (sampleHub unauthorized))]
   \<and> map_option r_status (response (fst (handleLoginOnPage Standalone (sampleHub unauthorized)
        (typedCredentials (sampleHub unauthorized))))) = Some (Code 401)
   \<and> token (fst (handleLoginOnPage Standalone (sampleHub unauthorized) (typedCredentials (sampleHub unauthorized)))) = JStr ''''
   \<and> fetch (sampleHub unreadable) (requestConfig (sampleHub unreadable) (quickArgs ''/health'') (signedIn (sampleHub unreadable)))
     = Returns \<lparr>res_status = 401, res_text = Throws ''body stream interrupted''\<rparr>
   \<and> \<not> res_ok \<lparr>res_status = 401, res_text = Throws ''body stream interrupted''\<rparr>
   \<and> snd (snd (sendRequestOnPage Standalone (sampleHub unreadable) (quickArgs ''/health'') (signedIn (sampleHub unreadable))))
     = [requestConfig (sampleHub unreadable) (quickArgs ''/health'') (signedIn (sampleHub unreadable))]
   \<and> toast (fst (snd
        (sendRequestOnPage Standalone (sampleHub unreadable) (quickArgs ''/health'') (signedIn (sampleHub unreadable)))))
     = \<lparr>tone = Error, message = ''body stream interrupted''\<rparr>"
proof -
  let ?e = "sampleHub unauthorized"
  let ?res = "\<lparr>res_status = 401, res_text = Returns ''Unauthorized''\<rparr>"
  let ?u = "sampleHub unreadable"
  let ?unread = "\<lparr>res_status = 401, res_text = Throws ''body stream interrupted''\<rparr>"
  have answered: "fetch ?e call = Returns ?res" for call
    by (simp add: sampleHub_def unauthorized_def)
  have failed: "\<not> res_ok ?res"
    by (simp add: res_ok_def)
  have content: "res_text ?res = Returns ''Unauthorized''"
    by simp
  have before: "token (signedIn ?e) = JStr ''abc''" "token (typedCredentials ?e) = JStr ''''"
    by (simp_all add: signedIn_def typedCredentials_def initialApp_def)
  have shown: "pageRenders Standalone e (signedIn e)" "pageRenders Standalone e (typedCredentials e)" for e
    by (simp_all add: pageRenders_def signedIn_def typedCredentials_def initialApp_def childRenders_def createDomCompletes_def)
  have sent: "snd (snd (sendRequestOnPage Standalone ?e logoutArgs (signedIn ?e))) = [requestConfig ?e logoutArgs (signedIn ?e)]"
    by (simp add: sendRequestOnPage_calls shown)
  have out: "snd (handleLogoutOnPage Standalone ?e (signedIn ?e)) = [requestConfig ?e logoutArgs (signedIn ?e)]"
    by (simp add: handleLogoutOnPage_renders shown handleLogout_calls)
  have inn: "snd (handleLoginOnPage Standalone ?e (typedCredentials ?e))
      = [requestConfig ?e (loginArgs (typedCredentials ?e)) (typedCredentials ?e)]"
    by (simp add: handleLoginOnPage_def sendRequestOnPage_renders shown sendRequest_returns
        awaitResponse_def answered res_ok_def)
  have unanswered: "fetch ?u call = Returns ?unread" for call
    by (simp add: sampleHub_def unreadable_def)
  have unfailed: "\<not> res_ok ?unread"
    by (simp add: res_ok_def)
  have thrown: "res_text ?unread = Throws ''body stream interrupted''"
    by simp
  have unsent: "snd (snd (sendRequestOnPage Standalone ?u (quickArgs ''/health'') (signedIn ?u)))
      = [requestConfig ?u (quickArgs ''/health'') (signedIn ?u)]"
    by (simp add: sendRequestOnPage_calls shown)
  note fact = non2xx_response_recorded
      [where e = ?e and call = "requestConfig ?e logoutArgs (signedIn ?e)" and res = ?res and b = Standalone
         and args = logoutArgs and st = "signedIn ?e" and content = "''Unauthorized''", OF answered failed]
  note login = non2xx_response_recorded
      [where e = ?e and call = "requestConfig ?e (loginArgs (typedCredentials ?e)) (typedCredentials ?e)"
         and res = ?res and b = Standalone and st = "typedCredentials ?e" and content = "''Unauthorized''",
       OF answered failed]
  note unread = non2xx_response_recorded
      [where e = ?u and call = "requestConfig ?u (quickArgs ''/health'') (signedIn ?u)" and res = ?unread
         and b = Standalone and args = "quickArgs ''/health''" and st = "signedIn ?u"
         and msg = "''body stream interrupted''",
       OF unanswered unfailed]
  have dispatched: "map_option r_status (response (fst (snd (sendRequestOnPage Standalone ?e logoutArgs (signedIn ?e)))))
        = Some (Code 401)
      \<and> tone (toast (fst (snd (sendRequestOnPage Standalone ?e logoutArgs (signedIn ?e))))) = Error
      \<and> token (fst (snd (sendRequestOnPage Standalone ?e logoutArgs (signedIn ?e)))) = JStr ''abc''"
    using fact [THEN conjunct1, rule_format, OF conjI, OF sent content] before by simp
  have left: "map_option r_status (response (fst (handleLogoutOnPage Standalone ?e (signedIn ?e)))) = Some (Code 401)
      \<and> token (fst (handleLogoutOnPage Standalone ?e (signedIn ?e))) = JStr ''''"
    using fact [THEN conjunct2, THEN conjunct2, THEN conjunct1, rule_format, OF conjI, OF out content] by simp
  have refused: "map_option r_status (response (fst (handleLoginOnPage Standalone ?e (typedCredentials ?e)))) = Some (Code 401)
      \<and> token (fst (handleLoginOnPage Standalone ?e (typedCredentials ?e))) = JStr ''''"
    using login [THEN conjunct2, THEN conjunct1, rule_format, OF conjI, OF inn content, THEN conjunct2] before
    by simp
  have interrupted: "toast (fst (snd (sendRequestOnPage Standalone ?u (quickArgs ''/health'') (signedIn ?u))))
      = \<lparr>tone = Error, message = ''body stream interrupted''\<rparr>"
    using unread [THEN conjunct2, THEN conjunct2, THEN conjunct2, rule_format, OF conjI, OF unsent thrown] by simp
  from answered failed sent dispatched out left inn refused unanswered unfailed unsent interrupted
  show ?thesis by blast
qed






text \<open>
  Claim C7. When the POST to \<open>/authenticate\<close> of the login flow returns an ok response whose
  body parses to an object with \<open>access_token\<close> a non-empty string and \<open>username\<close> a non-empty
  string (as \<open>{access_token: "abc", username: "u"}\<close>), the state after the flow has that
  token stored and a success-toned toast whose message is \<open>Signed in as\<close> followed by that
  user name.
\<close>

theorem handleLogin_stores_token:
  assumes "awaitResponse e (requestConfig e (loginArgs st) st) = Returns (res, text)"
    and "res_ok res"
    and "JSON_parse e text = Some (JObj props)"
    and "map_of props ''access_token'' = Some (JStr tok)" and "tok \<noteq> []"
    and "map_of props ''username'' = Some (JStr u)" and "u \<noteq> []"
  shows "token (fst (handleLogin b e st)) = JStr tok
       \<and> toast (fst (handleLogin b e st)) = \<lparr>tone = Success, message = ''Signed in as '' @ u\<rparr>"
  using assms
  by (cases b) (simp_all add: handleLogin_def sendRequest_returns signedInAs_def truthyOpt_def toStringOpt_def)

theorem handleLogin_stores_token_witness:
  \<open>awaitResponse (sampleHub authenticated)
       (requestConfig (sampleHub authenticated) (loginArgs (typedCredentials (sampleHub authenticated)))
          (typedCredentials (sampleHub authenticated)))
     = Returns (\<lparr>res_status = 200, res_text = Returns ''{"access_token":"abc","username":"u"}''\<rparr>,
                ''{"access_token":"abc","username":"u"}'')
   \<and> res_ok \<lparr>res_status = 200, res_text = Returns ''{"access_token":"abc","username":"u"}''\<rparr>
   \<and> JSON_parse (sampleHub authenticated) ''{"access_token":"abc","username":"u"}''
       = Some (JObj [(''access_token'', JStr ''abc''), (''username'', JStr ''u'')])
   \<and> token (fst (handleLogin Standalone (sampleHub authenticated) (typedCredentials (sampleHub authenticated))))
       = JStr ''abc''
   \<and> toast (fst (handleLogin Standalone (sampleHub authenticated) (typedCredentials (sampleHub authenticated))))
       = \<lparr>tone = Success, message = ''Signed in as u''\<rparr>\<close>
proof -
  let ?e = "sampleHub authenticated"
  let ?text = \<open>''{"access_token":"abc","username":"u"}''\<close>
  let ?res = "\<lparr>res_status = 200, res_text = Returns ?text\<rparr>"
  let ?props = "[(''access_token'', JStr ''abc''), (''username'', JStr ''u'')]"
  have answered: "awaitResponse ?e call = Returns (?res, ?text)" for call
    by (simp add: awaitResponse_def sampleHub_def authenticated_def)
  have fine: "res_ok ?res"
    by (simp add: res_ok_def)
  have parsed: "JSON_parse ?e ?text = Some (JObj ?props)"
    by (simp add: sampleHub_def sampleParse_def)
  have tok: "map_of ?props ''access_token'' = Some (JStr ''abc'')" and "''abc'' \<noteq> []"
    and usr: "map_of ?props ''username'' = Some (JStr ''u'')" and "''u'' \<noteq> []"
    by simp_all
  from handleLogin_stores_token [where b = Standalone, OF answered fine parsed this] answered fine parsed
  show ?thesis by simp
qed

text \<open>
  Claim C10. A dispatched request whose body argument is a falsy JSON value goes out as
  exactly one call with no body attached, whatever the method; \<open>0\<close>, \<open>false\<close>, \<open>null\<close> and
  the empty string are falsy.
\<close>

theorem sendRequest_falsy_body_dropped:
  "(arg_body args = Some j \<and> \<not> truthy j \<longrightarrow> map f_body (snd (snd (sendRequest b e args st))) = [None])
   \<and> \<not> truthy (JNum 0) \<and> \<not> truthy (JBool False) \<and> \<not> truthy JNull \<and> \<not> truthy (JStr [])"
proof (intro conjI impI)
  assume falsy: "arg_body args = Some j \<and> \<not> truthy j"
  have "snd (snd (sendRequest b e args st)) = [requestConfig e args st]"
    by (rule sendRequest_calls)
  moreover have "f_body (requestConfig e args st) = None"
    using falsy by (simp add: requestConfig_def Let_def)
  ultimately show "map f_body (snd (snd (sendRequest b e args st))) = [None]"
    by simp
qed simp_all

theorem sendRequest_falsy_body_dropped_witness:
  "arg_body (customArgs (typedBody (sampleHub unauthorized) ''0'') (Some (JNum 0))) = Some (JNum 0)
   \<and> \<not> truthy (JNum 0)
   \<and> argMethod (customArgs (typedBody (sampleHub unauthorized) ''0'') (Some (JNum 0))) = ''POST''
   \<and> map f_body (snd (snd (sendRequest Standalone (sampleHub unauthorized)
        (customArgs (typedBody (sampleHub unauthorized) ''0'') (Some (JNum 0)))
        (typedBody (sampleHub unauthorized) ''0'')))) = [None]"
proof -
  let ?e = "sampleHub unauthorized"
  let ?args = "customArgs (typedBody ?e ''0'') (Some (JNum 0))"
  have body: "arg_body ?args = Some (JNum 0)"
    by (simp add: customArgs_def)
  have post: "argMethod ?args = ''POST''"
    by (simp add: customArgs_def argMethod_def typedBody_def)
  note fact = sendRequest_falsy_body_dropped [of ?args "JNum 0" Standalone ?e "typedBody ?e ''0''"]
  from body post fact show ?thesis by simp
qed

section \<open>Properties of the hook runtime\<close>

lemmas runtime_defs =
  render_def rerender_def setState_def useState_def useEffect_def runPending_def
  depsChanged_def someDiffers_def nthOrUndefined_def appendChild_def propsOrEmpty_def emptyRuntime_def
  andThen_def contentAfter_def slotAfter_def storedAfter_def showValue_def Let_def

subsection \<open>The dependency rule of the memo and effect hooks\<close>





text \<open>
  When the previous render passed no list and this one passes a non-empty one, the hook
  throws instead of recomputing.
\<close>

lemma depsChanged_after_no_list:
  "depsChanged None None = Inr True"
  "depsChanged None (Some []) = Inr True"
  "ds \<noteq> [] \<Longrightarrow> depsChanged None (Some ds) = Inl TypeError"
  by (simp_all add: depsChanged_def)




subsection \<open>State slots\<close>

lemma useState_defined:
  assumes "hooks st (hookIndex st) = Value v" and "v \<noteq> VUndefined"
  shows "useState i st = Inr (v, hookIndex st, st\<lparr>hookIndex := hookIndex st + 1\<rparr>)"
  using assms by (cases v) (simp_all add: useState_def Let_def)

lemma useState_fresh:
  assumes "hooks st (hookIndex st) = Value VUndefined"
  shows "useState i st =
     Inr (case i of Literal v \<Rightarrow> v | Lazy f \<Rightarrow> f (world st), hookIndex st,
          st\<lparr>hookIndex := hookIndex st + 1,
             hooks := (hooks st)(hookIndex st := Value (case i of Literal v \<Rightarrow> v | Lazy f \<Rightarrow> f (world st)))\<rparr>)"
  using assms by (cases i) (simp_all add: useState_def Let_def)

lemma useStates_defined:
  assumes "length inits = length vs" and "definedStates st (hookIndex st) vs"
  shows "useStates inits st = Inr (vs, st\<lparr>hookIndex := hookIndex st + length vs\<rparr>)"
  using assms
proof (induction inits arbitrary: vs st)
  case Nil
  then show ?case by simp
next
  case (Cons i rest)
  then obtain v vs' where vs: "vs = v # vs'" by (cases vs) auto
  from Cons.prems(2) have head: "hooks st (hookIndex st) = Value v" "v \<noteq> VUndefined"
    unfolding definedStates_def vs by force+
  let ?st1 = "st\<lparr>hookIndex := hookIndex st + 1\<rparr>"
  have tail: "definedStates ?st1 (hookIndex ?st1) vs'"
    unfolding definedStates_def
  proof (intro allI impI)
    fix k assume "k < length vs'"
    then have "Suc k < length vs" by (simp add: vs)
    with Cons.prems(2) have "hooks st (hookIndex st + Suc k) = Value (vs ! Suc k) \<and> vs ! Suc k \<noteq> VUndefined"
      unfolding definedStates_def by blast
    then show "hooks ?st1 (hookIndex ?st1 + k) = Value (vs' ! k) \<and> vs' ! k \<noteq> VUndefined"
      by (simp add: vs)
  qed
  have len: "length rest = length vs'" using Cons.prems(1) by (simp add: vs)
  have "useStates rest ?st1 = Inr (vs', ?st1\<lparr>hookIndex := hookIndex ?st1 + length vs'\<rparr>)"
    by (rule Cons.IH [OF len tail])
  then show ?case
    by (simp add: useState_defined [OF head] vs)
qed

lemma definedStates_update:
  assumes "definedStates st 0 vs" and "idx < length vs" and "v \<noteq> VUndefined"
  shows "definedStates (st\<lparr>hooks := (hooks st)(idx := Value v), hookIndex := 0\<rparr>) 0 (vs[idx := v])"
  using assms unfolding definedStates_def by (auto simp: nth_list_update)

text \<open>
  What does hold of state slots: when a component's hooks are state hooks whose slots hold
  values other than \<^verbatim>\<open>undefined\<close>, and one slot is set to a value other than \<^verbatim>\<open>undefined\<close>,
  the next render reads that value in that slot and the old values in all the others.
\<close>

lemma defined_states_persist:
  assumes "length inits = length vs" and "definedStates st 0 vs" and "idx < length vs" and "v \<noteq> VUndefined"
  shows "map_sum id fst (useStates inits (st\<lparr>hooks := (hooks st)(idx := Value v), hookIndex := 0\<rparr>))
         = Inr (vs[idx := v])"
proof -
  let ?st = "st\<lparr>hooks := (hooks st)(idx := Value v), hookIndex := 0\<rparr>"
  have slots: "definedStates ?st (hookIndex ?st) (vs[idx := v])"
    using definedStates_update [OF assms(2,3,4)] by simp
  have len: "length inits = length (vs[idx := v])"
    using assms(1) by simp
  have "useStates inits ?st = Inr (vs[idx := v], ?st\<lparr>hookIndex := hookIndex ?st + length (vs[idx := v])\<rparr>)"
    by (rule useStates_defined [OF len slots])
  then show ?thesis by simp
qed

text \<open>
  Claim C5, at the component \<^verbatim>\<open>const [count, setCount] = useState(5)\<close>: the first render
  stores 5 in slot 0; after \<^verbatim>\<open>setCount(undefined)\<close> the re-render finds
  \<^verbatim>\<open>hooks[0] === undefined\<close>, runs the initialiser again, and the slot holds 5 and the page
  shows 5, not the value last set.
\<close>

theorem setState_undefined_is_forgotten:
  "slotAfter (render counterRoot (emptyRuntime ())) 0 = Some (Value (VNum 5))
   \<and> slotAfter (andThen (render counterRoot (emptyRuntime ()))
        (setState (Some counterRoot) 0 (SetTo VUndefined))) 0 = Some (Value (VNum 5))
   \<and> contentAfter (andThen (render counterRoot (emptyRuntime ()))
        (setState (Some counterRoot) 0 (SetTo VUndefined))) = Some (Some [TextNode ''5''])"
  by (simp add: runtime_defs counterRoot_def counter_def showInt_def digitChar_def)

subsection \<open>The persistence hook\<close>

text \<open>
  The first read: on a fresh pair of slots the hook returns what the initialiser reads, the
  parsed stored string when the key is present and parses, and the default otherwise.
\<close>

lemma useLocalStorage_first_read:
  assumes "hooks st (hookIndex st) = Value VUndefined"
    and "hooks st (hookIndex st + 1) = Value VUndefined"
  shows "map_sum id fst (useLocalStorage parse stringify key initialValue st)
         = Inr (readStored parse key initialValue (world st))"
  using assms by (simp add: useLocalStorage_def useState_fresh useEffect_def Let_def)

lemma readStored_cases:
  "w key = None \<Longrightarrow> readStored parse key d w = d"
  "w key = Some raw \<Longrightarrow> parse raw = None \<Longrightarrow> readStored parse key d w = d"
  "w key = Some raw \<Longrightarrow> parse raw = Some v \<Longrightarrow> readStored parse key d w = v"
  by (simp_all add: readStored_def)

text \<open>The values that can be shown as a child: strings, small numbers and the empty ones.\<close>

lemma createDom_showValue:
  "createDom (showValue v) st =
     (case v of
        VBool True \<Rightarrow> Inl TypeError
      | VRef r \<Rightarrow> Inl TypeError
      | VNum n \<Rightarrow> if \<bar>n\<bar> < 9007199254740992 then Inr (TextNode (showInt n), st) else Inl OutsideModel
      | VStr s \<Rightarrow> Inr (TextNode s, st)
      | _ \<Rightarrow> Inr (TextNode [], st))"
  by (cases v) (auto simp: showValue_def)

lemma createDom_showable:
  assumes "showable v"
  shows "\<exists>shown. \<forall>st. createDom (showValue v :: ('w, 'h) vnode) st = Inr (TextNode shown, st)"
  using assms by (cases v) (auto simp: showable_def showValue_def split: if_splits)

text \<open>
  The write-back: when the storage mirrors the stored value, setting the value to anything
  but \<^verbatim>\<open>undefined\<close> leaves the serialisation of the new value under the key after the
  re-render (the component gives the value as a child, so it must be one that can be shown).
\<close>

lemma stored_value_written:
  assumes "hooks st 0 = Value old" and "hooks st (Suc 0) = EffectCell (Some [VStr key, old]) None"
    and "old \<noteq> VUndefined \<Longrightarrow> world st key = Some (stringify old)"
    and "v \<noteq> VUndefined" and "showable v"
  shows "worldAfter (setState (Some (ComponentElement (persistent parse stringify key initialValue) None [] :: (storage, 'h) vnode))
            0 (SetTo v) st)
         = Some ((world st)(key \<mapsto> stringify v))"
proof -
  obtain content where shown: "\<And>s. createDom (showValue v :: (storage, 'h) vnode) s = Inr (TextNode content, s)"
    using createDom_showable [OF assms(5), where ?'w = storage and ?'h = 'h] by blast
  have triv: "v = old \<Longrightarrow> (world st)(key \<mapsto> stringify v) = world st"
    using assms(3,4) by (auto simp: fun_upd_idem)
  have read: "useState i (st\<lparr>hooks := (hooks st)(0 := Value v), hookIndex := 0, pendingEffects := []\<rparr>)
      = Inr (v, 0, st\<lparr>hooks := (hooks st)(0 := Value v), hookIndex := Suc 0, pendingEffects := []\<rparr>)" for i
    using assms(4) by (simp add: useState_defined)
  show ?thesis
  proof (cases "v = old")
    case True
    have shown_old: "createDom (showValue old :: (storage, 'h) vnode) s = Inr (TextNode content, s)" for s
      using shown True by simp
    have defined: "old \<noteq> VUndefined"
      using assms(4) True by simp
    from True assms(1,2) triv defined show ?thesis
      by (simp add: setState_def rerender_def render_def persistent_def useLocalStorage_def useState_defined
          useEffect_def depsChanged_def someDiffers_def nthOrUndefined_def Let_def shown_old worldAfter_def
          propsOrEmpty_def)
  next
    case False
    with assms(1,2,4) show ?thesis
      by (simp add: setState_def rerender_def render_def persistent_def useLocalStorage_def read
          useEffect_def depsChanged_def someDiffers_def nthOrUndefined_def Let_def shown worldAfter_def
          runPending_def writeStored_def propsOrEmpty_def)
  qed
qed

text \<open>
  Claim C8, at the component \<^verbatim>\<open>useLocalStorage('hub.token', '')\<close> over a storage that holds
  \<^verbatim>\<open>"abc"\<close> under the key: the first render reads \<^verbatim>\<open>abc\<close>; after \<^verbatim>\<open>setStored(undefined)\<close> the
  state hook reads the storage again, the value is \<^verbatim>\<open>abc\<close> as before, the effect is not
  scheduled, and the key is still in the storage.
\<close>

theorem stored_key_survives_undefined:
  \<open>contentAfter (render tokenRoot (emptyRuntime tokenStorage)) = Some [TextNode ''abc'']
   \<and> storedAfter (render tokenRoot (emptyRuntime tokenStorage)) ''hub.token'' = Some (Some ''"abc"'')
   \<and> slotAfter (andThen (render tokenRoot (emptyRuntime tokenStorage))
        (setState (Some tokenRoot) 0 (SetTo VUndefined))) 0 = Some (Value (VStr ''abc''))
   \<and> storedAfter (andThen (render tokenRoot (emptyRuntime tokenStorage))
        (setState (Some tokenRoot) 0 (SetTo VUndefined))) ''hub.token'' = Some (Some ''"abc"'')\<close>
  by (simp add: runtime_defs tokenRoot_def persistent_def useLocalStorage_def readStored_def writeStored_def
      tokenStorage_def sampleParseValue_def sampleStringifyValue_def)

section \<open>Properties of DOM materialisation\<close>

text \<open>The leaves that \<open>createDom\<close> turns into text nodes, without touching the runtime.\<close>

lemma createDom_leaves:
  "createDom LeafNull st = Inr (TextNode [], st)"
  "createDom LeafUndefined st = Inr (TextNode [], st)"
  "createDom (LeafBool False) st = Inr (TextNode [], st)"
  "createDom (LeafText s) st = Inr (TextNode s, st)"
  "\<bar>n\<bar> < 9007199254740992 \<Longrightarrow> createDom (LeafNumber n) st = Inr (TextNode (showInt n), st)"
  by simp_all

text \<open>
  The token panel of the standalone page: on a JSON value that has a leaf, \<open>createDom\<close>
  does not complete exactly when it throws a type error on that leaf.
\<close>

lemma createDomCompletes_leaf:
  assumes "jsonLeaf v = Some leaf"
  shows "(createDom leaf st = Inl TypeError) = (\<not> createDomCompletes e v)"
  using assms by (cases v) (auto simp: jsonLeaf_def createDomCompletes_def split: if_splits)

text \<open>
  Claim C9, at the boolean leaf \<^verbatim>\<open>true\<close>: \<open>createDom\<close> does not return a text node; it goes
  on to build an element and throws a type error.
\<close>

theorem createDom_true_throws:
  "createDom (LeafBool True) st = Inl TypeError"
  by simp

end
